theory Spec2Isabelle
  imports Complex_Main
begin

section \<open>Delta-inference simulation engine and causal attribution\<close>

text \<open>
  A shallow embedding of \<^verbatim>\<open>backend/python-gnn/simulation_engine.py\<close> (class
  \<^verbatim>\<open>SimulationEngine\<close>) and \<^verbatim>\<open>backend/python-gnn/causal_attribution.py\<close>.

  Conventions of the embedding:
  \<^item> Python and numpy floating-point numbers are modelled as \<^typ>\<open>real\<close>: the
    arithmetic is the ideal one, without rounding, infinities or NaN. Where numpy would
    produce NaN or raise, the model returns an error value instead.
  \<^item> numpy arrays are lists; a two-dimensional array is a list of rows. Array indices
    are \<^typ>\<open>int\<close>, with numpy's rule that a negative index counts from the end and
    an index outside \<open>[-n, n)\<close> raises \<^verbatim>\<open>IndexError\<close>.
  \<^item> A method name with a leading underscore loses the underscore
    (\<^verbatim>\<open>_compute_confidence\<close> is \<open>compute_confidence\<close>).
  \<^item> The predictor (a trained neural network) is a parameter: a function from node
    features, edge list and edge weights to the matrix of probabilities.
\<close>

subsection \<open>Failure modes\<close>

datatype FailureMode = NONE | DEMAND_LOSS | SUPPLY_CUT | CONTAMINATION | CONTROL_FAILURE

subsection \<open>Confidence and pessimistic amplification\<close>

text \<open>\<^verbatim>\<open>SimulationEngine._compute_confidence\<close>, lines 146-183.\<close>

definition compute_confidence :: "real \<Rightarrow> real \<Rightarrow> real \<times> string" where
  "compute_confidence delta topology_weight =
     (let scaled_delta = min (\<bar>delta\<bar> * 2) 1.0;
          confidence = scaled_delta * topology_weight;
          confidence = max 0.0 (min 1.0 confidence);
          label = (if confidence < 0.2 then ''low''
                   else if confidence < 0.5 then ''medium''
                   else ''high'')
      in (confidence, label))"

text \<open>
  \<^verbatim>\<open>SimulationEngine._calculate_pessimistic_delta\<close>, lines 185-236. The alert level
  is decided on the value before it is capped at 1.0; the capped value is returned.
  \<^verbatim>\<open>raw_delta ** 0.5\<close> is \<open>raw_delta powr 0.5\<close>, evaluated only for a positive base.
\<close>

definition calculate_pessimistic_delta :: "real \<Rightarrow> real \<Rightarrow> real \<times> string" where
  "calculate_pessimistic_delta raw_delta topology_weight =
     (if raw_delta > 0 then
        (let amplified = (raw_delta powr 0.5) * 2.0;
             pessimistic = amplified * topology_weight;
             alert_level = (if pessimistic \<ge> 0.8 then ''critical''
                            else if pessimistic \<ge> 0.5 then ''high''
                            else if pessimistic \<ge> 0.2 then ''elevated''
                            else ''normal'')
         in (min pessimistic 1.0, alert_level))
      else
        (let suppressed = raw_delta * 0.1
         in (suppressed, ''normal'')))"

text \<open>
  The confidence formula as the specification words it:
  \<open>clamp(min(|delta| * 2, 1.0) * topologyWeight, 0, 1)\<close>, labelled low below 0.2, medium
  below 0.5 and high otherwise.
\<close>

definition clamp :: "real \<Rightarrow> real \<Rightarrow> real \<Rightarrow> real" where
  "clamp v lo hi = (if v < lo then lo else if hi < v then hi else v)"

definition spec_confidence :: "real \<Rightarrow> real \<Rightarrow> real" where
  "spec_confidence delta tw = clamp (min (\<bar>delta\<bar> * 2) 1 * tw) 0 1"

subsection \<open>Errors and array access\<close>

text \<open>
  The exceptions the modelled code can raise. \<^verbatim>\<open>FloatingPointError\<close> stands for a
  division by zero: numpy would not raise there but put NaN or an infinity into the
  array, which a real number cannot represent, so the model stops with this error.
\<close>

datatype error = IndexError | ValueError | FloatingPointError

definition bind_err :: "error + 'a \<Rightarrow> ('a \<Rightarrow> error + 'b) \<Rightarrow> error + 'b" where
  "bind_err m f = (case m of Inl e \<Rightarrow> Inl e | Inr v \<Rightarrow> f v)"

text \<open>The first error of a list of results, or all the values.\<close>

fun sequence_err :: "(error + 'a) list \<Rightarrow> error + 'a list" where
  "sequence_err [] = Inr []"
| "sequence_err (r # rs) =
     (case r of Inl e \<Rightarrow> Inl e
      | Inr v \<Rightarrow> (case sequence_err rs of Inl e \<Rightarrow> Inl e | Inr vs \<Rightarrow> Inr (v # vs)))"

text \<open>
  numpy's index rule for an axis of length \<open>n\<close>: \<open>0 \<le> i < n\<close> is position \<open>i\<close>,
  \<open>-n \<le> i < 0\<close> is position \<open>n + i\<close>, anything else raises \<^verbatim>\<open>IndexError\<close>.
\<close>

definition np_index :: "nat \<Rightarrow> int \<Rightarrow> error + nat" where
  "np_index n i =
     (if 0 \<le> i \<and> i < int n then Inr (nat i)
      else if - int n \<le> i \<and> i < 0 then Inr (nat (int n + i))
      else Inl IndexError)"

text \<open>\<^verbatim>\<open>a / b\<close> on floats, with the division by zero made an error.\<close>

definition np_true_divide :: "real \<Rightarrow> real \<Rightarrow> error + real" where
  "np_true_divide a b = (if b = 0 then Inl FloatingPointError else Inr (a / b))"

text \<open>\<^verbatim>\<open>arr.max()\<close>: raises \<^verbatim>\<open>ValueError\<close> on an empty array.\<close>

fun np_max :: "real list \<Rightarrow> error + real" where
  "np_max [] = Inl ValueError"
| "np_max (v # vs) = Inr (fold max vs v)"

subsection \<open>Topology weights\<close>

text \<open>
  \<^verbatim>\<open>SimulationEngine._compute_topology_weights\<close>, lines 93-144. The edge array of shape
  \<open>[2, E]\<close> is the list of its columns \<open>(src, dst)\<close>. The loop of lines 118-125 runs over
  the edges with the running index \<open>i\<close> and the two accumulator arrays; an edge whose
  index is beyond the weight array has weight 1.0.
\<close>

fun topology_loop ::
  "(int \<times> int) list \<Rightarrow> real list \<Rightarrow> nat \<Rightarrow> real list \<times> real list \<Rightarrow> error + real list \<times> real list"
where
  "topology_loop [] edge_weight i (degree, weight_sum) = Inr (degree, weight_sum)"
| "topology_loop ((src, dst) # es) edge_weight i (degree, weight_sum) =
     (let w = (if i < length edge_weight then edge_weight ! i else 1.0) in
      bind_err (np_index (length degree) src) (\<lambda>s.
        let degree = degree[s := degree ! s + 1] in
      bind_err (np_index (length degree) dst) (\<lambda>d.
        let degree = degree[d := degree ! d + 1] in
      bind_err (np_index (length weight_sum) src) (\<lambda>s.
        let weight_sum = weight_sum[s := weight_sum ! s + w] in
      bind_err (np_index (length weight_sum) dst) (\<lambda>d.
        let weight_sum = weight_sum[d := weight_sum ! d + w] in
      topology_loop es edge_weight (Suc i) (degree, weight_sum))))))"

text \<open>
  \<^verbatim>\<open>np.divide(weight_sum, degree, out=zeros, where=degree > 0)\<close>: the quotient where the
  degree is positive, the zero of \<^verbatim>\<open>out\<close> elsewhere.
\<close>

definition np_divide_where_positive :: "real list \<Rightarrow> real list \<Rightarrow> error + real list" where
  "np_divide_where_positive weight_sum degree =
     sequence_err (map (\<lambda>(ws, d). if d > 0 then np_true_divide ws d else Inr 0)
                       (zip weight_sum degree))"

definition compute_topology_weights ::
  "(int \<times> int) list \<Rightarrow> real list \<Rightarrow> nat \<Rightarrow> error + real list"
where
  "compute_topology_weights edge_index edge_weight num_nodes =
     bind_err (topology_loop edge_index edge_weight 0
                 (replicate num_nodes 0, replicate num_nodes 0)) (\<lambda>(degree, weight_sum).
     bind_err (np_divide_where_positive weight_sum degree) (\<lambda>avg_weight.
       let raw_weights = map (\<lambda>(d, a). d * a) (zip degree avg_weight) in
     bind_err (np_max raw_weights) (\<lambda>m.
       if m > 0 then
         sequence_err (map (\<lambda>r. np_true_divide r m) raw_weights)
       else
         Inr (map (\<lambda>one. one * 0.5) (replicate num_nodes 1)))))"

text \<open>
  The topology weight as the specification words it (section 4.1): the degree of a node
  is the count of its incident edges, incoming plus outgoing; its weight sum is the sum
  of the weights of these edges; the average edge weight is their quotient, 0 for a node
  of degree 0; the raw value is degree times average; the weight is the raw value
  divided by the maximum raw value over all nodes, and 0.5 for every node when that
  maximum is 0.
\<close>

definition spec_degree :: "(int \<times> int) list \<Rightarrow> int \<Rightarrow> nat" where
  "spec_degree es v = length (filter (\<lambda>e. fst e = v) es) + length (filter (\<lambda>e. snd e = v) es)"

definition spec_weight_sum :: "((int \<times> int) \<times> real) list \<Rightarrow> int \<Rightarrow> real" where
  "spec_weight_sum ews v =
     sum_list (map snd (filter (\<lambda>ew. fst (fst ew) = v) ews)) +
     sum_list (map snd (filter (\<lambda>ew. snd (fst ew) = v) ews))"

definition spec_raw_weight :: "(int \<times> int) list \<Rightarrow> real list \<Rightarrow> int \<Rightarrow> real" where
  "spec_raw_weight es ws v =
     (let degree = spec_degree es v;
          average = (if degree = 0 then 0 else spec_weight_sum (zip es ws) v / real degree)
      in real degree * average)"

definition spec_topology_weights :: "(int \<times> int) list \<Rightarrow> real list \<Rightarrow> nat \<Rightarrow> real list" where
  "spec_topology_weights es ws n =
     (let raw = map (\<lambda>v. spec_raw_weight es ws (int v)) [0..<n];
          m = Max (set raw)
      in if m = 0 then replicate n 0.5 else map (\<lambda>r. r / m) raw)"

text \<open>
  The weights the loop reads for the \<open>k\<close> edges from index \<open>i\<close> on: the entry of the
  weight array where there is one, 1.0 beyond its end.
\<close>

definition edge_weights_from :: "real list \<Rightarrow> nat \<Rightarrow> nat \<Rightarrow> real list" where
  "edge_weights_from ew i k = map (\<lambda>j. if j < length ew then ew ! j else 1) [i..<i + k]"

subsection \<open>Array reads, sorting and the predictor port\<close>

text \<open>
  Reading \<^verbatim>\<open>xs[i]\<close> from a numpy array or a Python list: both follow the index rule
  of \<open>np_index\<close>.
\<close>

definition np_get :: "'a list \<Rightarrow> int \<Rightarrow> error + 'a" where
  "np_get xs i = bind_err (np_index (length xs) i) (\<lambda>k. Inr (xs ! k))"

text \<open>
  \<^verbatim>\<open>probabilities[:, 0]\<close>: column 0 of a matrix given as the list of its rows; a matrix
  without columns raises \<^verbatim>\<open>IndexError\<close>.
\<close>

definition np_column0 :: "real list list \<Rightarrow> error + real list" where
  "np_column0 rows =
     (if list_ex (\<lambda>r. r = []) rows then Inl IndexError else Inr (map (\<lambda>r. r ! 0) rows))"

text \<open>
  \<^verbatim>\<open>a - b\<close> on one-dimensional arrays: elementwise for equal lengths, broadcast when one
  of them has length 1, \<^verbatim>\<open>ValueError\<close> otherwise.
\<close>

definition np_subtract :: "real list \<Rightarrow> real list \<Rightarrow> error + real list" where
  "np_subtract a b =
     (if length a = length b then Inr (map (\<lambda>(u, v). u - v) (zip a b))
      else if length b = 1 then Inr (map (\<lambda>u. u - b ! 0) a)
      else if length a = 1 then Inr (map (\<lambda>v. a ! 0 - v) b)
      else Inl ValueError)"

text \<open>\<^verbatim>\<open>np.mean\<close>: on an empty array numpy gives NaN, here the error.\<close>

definition np_mean :: "real list \<Rightarrow> error + real" where
  "np_mean vs = np_true_divide (sum_list vs) (real (length vs))"

text \<open>
  \<^verbatim>\<open>list.sort(key=..., reverse=True)\<close>: Python's sort is stable, and with
  \<^verbatim>\<open>reverse=True\<close> it reverses the list, sorts it stably in ascending order and
  reverses the result, so that items with equal keys keep their original order.
  \<^verbatim>\<open>list.sort(key=...)\<close> is the stable ascending sort \<^const>\<open>sort_key\<close>.
\<close>

definition py_sort_reverse :: "('a \<Rightarrow> real) \<Rightarrow> 'a list \<Rightarrow> 'a list" where
  "py_sort_reverse key xs = rev (sort_key key (rev xs))"

text \<open>
  The predictor: \<^verbatim>\<open>ImpactPredictor.predict(x, edge_index, edge_weight)\<close> of
  \<^verbatim>\<open>model.py\<close> runs the trained network and returns the matrix of probabilities, one
  row per node. It is a parameter of everything below.
\<close>

type_synonym predictor = "real list list \<Rightarrow> (int \<times> int) list \<Rightarrow> real list \<Rightarrow> real list list"

text \<open>
  \<^verbatim>\<open>ImpactPredictor.predict_with_threshold\<close>, \<^verbatim>\<open>model.py\<close> lines 262-302. The risk
  level strings of the source start with an emoji, left out here.
\<close>

definition predict_with_threshold ::
  "predictor \<Rightarrow> real list list \<Rightarrow> (int \<times> int) list \<Rightarrow> real list \<Rightarrow> real
     \<Rightarrow> error + real list list \<times> nat list list \<times> string"
where
  "predict_with_threshold predict x edge_index edge_weight threshold =
     (let probabilities = predict x edge_index edge_weight;
          alerts = map (map (\<lambda>p. if p \<ge> threshold then 1 else 0)) probabilities in
      bind_err (np_column0 probabilities) (\<lambda>impact_probs.
      bind_err (np_max impact_probs) (\<lambda>max_impact.
        let risk_level = (if max_impact \<ge> 0.7 then ''CRITICAL''
                          else if max_impact \<ge> 0.5 then ''HIGH''
                          else if max_impact \<ge> 0.3 then ''MODERATE''
                          else ''LOW'')
        in Inr (probabilities, alerts, risk_level))))"

subsection \<open>Semantic interpretation\<close>

text \<open>
  The dataclass \<^verbatim>\<open>SemanticInterpretation\<close>, lines 47-60. Field \<open>f\<close> of the source is
  field \<open>si_f\<close> here. The fields \<^verbatim>\<open>explanation\<close> and \<^verbatim>\<open>ui_icon\<close> are presentation
  texts (formatted floats, emoji) and are left out.
\<close>

record SemanticInterpretation =
  si_delta :: real
  si_failure_mode :: FailureMode
  si_risk_type :: string
  si_risk_level :: string
  si_ui_color :: string
  si_confidence :: real
  si_confidence_label :: string
  si_pessimistic_delta :: real
  si_alert_level :: string

text \<open>The five interpreters by failure mode, lines 462-636.\<close>

definition interpret_demand_loss ::
  "real \<Rightarrow> string \<Rightarrow> string \<Rightarrow> string \<Rightarrow> real \<Rightarrow> string \<Rightarrow> real \<Rightarrow> string \<Rightarrow> SemanticInterpretation"
where
  "interpret_demand_loss delta node_name risk_level ui_color confidence confidence_label
       pessimistic_delta alert_level =
     (if delta < 0 then
        \<lparr>si_delta = delta, si_failure_mode = DEMAND_LOSS, si_risk_type = ''STAGNATION_RISK'',
         si_risk_level = risk_level, si_ui_color = ui_color, si_confidence = confidence,
         si_confidence_label = confidence_label, si_pessimistic_delta = pessimistic_delta,
         si_alert_level = alert_level\<rparr>
      else
        \<lparr>si_delta = delta, si_failure_mode = DEMAND_LOSS, si_risk_type = ''LOAD_REDISTRIBUTION'',
         si_risk_level = risk_level, si_ui_color = ui_color, si_confidence = confidence,
         si_confidence_label = confidence_label, si_pessimistic_delta = pessimistic_delta,
         si_alert_level = alert_level\<rparr>)"

definition interpret_supply_cut ::
  "real \<Rightarrow> string \<Rightarrow> string \<Rightarrow> string \<Rightarrow> real \<Rightarrow> string \<Rightarrow> real \<Rightarrow> string \<Rightarrow> SemanticInterpretation"
where
  "interpret_supply_cut delta node_name risk_level ui_color confidence confidence_label
       pessimistic_delta alert_level =
     (if delta < 0 then
        \<lparr>si_delta = delta, si_failure_mode = SUPPLY_CUT, si_risk_type = ''SUPPLY_ISOLATION'',
         si_risk_level = risk_level, si_ui_color = ui_color, si_confidence = confidence,
         si_confidence_label = confidence_label, si_pessimistic_delta = pessimistic_delta,
         si_alert_level = alert_level\<rparr>
      else
        \<lparr>si_delta = delta, si_failure_mode = SUPPLY_CUT, si_risk_type = ''PRESSURE_SURGE'',
         si_risk_level = risk_level, si_ui_color = ui_color, si_confidence = confidence,
         si_confidence_label = confidence_label, si_pessimistic_delta = pessimistic_delta,
         si_alert_level = alert_level\<rparr>)"

definition interpret_contamination ::
  "real \<Rightarrow> string \<Rightarrow> string \<Rightarrow> string \<Rightarrow> real \<Rightarrow> string \<Rightarrow> real \<Rightarrow> string \<Rightarrow> SemanticInterpretation"
where
  "interpret_contamination delta node_name risk_level ui_color confidence confidence_label
       pessimistic_delta alert_level =
     (if delta < 0 then
        \<lparr>si_delta = delta, si_failure_mode = CONTAMINATION, si_risk_type = ''BACKFLOW_RISK'',
         si_risk_level = risk_level, si_ui_color = ui_color, si_confidence = confidence,
         si_confidence_label = confidence_label, si_pessimistic_delta = pessimistic_delta,
         si_alert_level = alert_level\<rparr>
      else
        \<lparr>si_delta = delta, si_failure_mode = CONTAMINATION, si_risk_type = ''CONTAMINATION_SPREAD'',
         si_risk_level = risk_level, si_ui_color = ui_color, si_confidence = confidence,
         si_confidence_label = confidence_label, si_pessimistic_delta = pessimistic_delta,
         si_alert_level = alert_level\<rparr>)"

definition interpret_control_failure ::
  "real \<Rightarrow> string \<Rightarrow> string \<Rightarrow> string \<Rightarrow> real \<Rightarrow> string \<Rightarrow> real \<Rightarrow> string \<Rightarrow> SemanticInterpretation"
where
  "interpret_control_failure delta node_name risk_level ui_color confidence confidence_label
       pessimistic_delta alert_level =
     (if delta < 0 then
        \<lparr>si_delta = delta, si_failure_mode = CONTROL_FAILURE, si_risk_type = ''CONTROL_BLIND_SPOT'',
         si_risk_level = risk_level, si_ui_color = ui_color, si_confidence = confidence,
         si_confidence_label = confidence_label, si_pessimistic_delta = pessimistic_delta,
         si_alert_level = alert_level\<rparr>
      else
        \<lparr>si_delta = delta, si_failure_mode = CONTROL_FAILURE, si_risk_type = ''CONTROL_INSTABILITY'',
         si_risk_level = risk_level, si_ui_color = ui_color, si_confidence = confidence,
         si_confidence_label = confidence_label, si_pessimistic_delta = pessimistic_delta,
         si_alert_level = alert_level\<rparr>)"

definition interpret_raw_delta ::
  "real \<Rightarrow> string \<Rightarrow> string \<Rightarrow> string \<Rightarrow> real \<Rightarrow> string \<Rightarrow> real \<Rightarrow> string \<Rightarrow> SemanticInterpretation"
where
  "interpret_raw_delta delta node_name risk_level ui_color confidence confidence_label
       pessimistic_delta alert_level =
     (if delta < 0 then
        \<lparr>si_delta = delta, si_failure_mode = NONE, si_risk_type = ''IMPACT_DECREASE'',
         si_risk_level = risk_level, si_ui_color = ui_color, si_confidence = confidence,
         si_confidence_label = confidence_label, si_pessimistic_delta = pessimistic_delta,
         si_alert_level = alert_level\<rparr>
      else
        \<lparr>si_delta = delta, si_failure_mode = NONE, si_risk_type = ''IMPACT_INCREASE'',
         si_risk_level = risk_level, si_ui_color = ui_color, si_confidence = confidence,
         si_confidence_label = confidence_label, si_pessimistic_delta = pessimistic_delta,
         si_alert_level = alert_level\<rparr>)"

text \<open>
  \<^verbatim>\<open>SimulationEngine._interpret_delta\<close>, lines 352-460. Confidence, amplified delta
  and alert level are computed first, whatever the mode (lines 383 and 386); the risk
  level follows the effective magnitude and, in pessimistic mode, a non-normal alert
  level; then come the branch of the forced-failure source, the branch of the
  insignificant change, and the dispatch on the failure mode.
\<close>

definition interpret_delta ::
  "real \<Rightarrow> string \<Rightarrow> bool \<Rightarrow> FailureMode \<Rightarrow> real \<Rightarrow> bool \<Rightarrow> SemanticInterpretation"
where
  "interpret_delta delta node_name is_source failure_mode topology_weight pessimistic_mode =
     (let abs_delta = \<bar>delta\<bar>;
          (confidence, confidence_label) = compute_confidence delta topology_weight;
          (pessimistic_delta, alert_level) = calculate_pessimistic_delta delta topology_weight;
          effective_delta = (if pessimistic_mode \<and> delta > 0 then pessimistic_delta else abs_delta);
          (risk_level, ui_color) =
             (if effective_delta < 0.05 then (''low'', ''#4CAF50'')
              else if effective_delta < 0.15 then (''medium'', ''#FF9800'')
              else if effective_delta < 0.30 then (''high'', ''#F44336'')
              else (''critical'', ''#9C27B0''));
          (risk_level, ui_color) =
             (if pessimistic_mode \<and> alert_level \<noteq> ''normal'' then
                (alert_level,
                 if alert_level = ''critical'' then ''#9C27B0''
                 else if alert_level = ''high'' then ''#F44336''
                 else if alert_level = ''elevated'' then ''#FF9800''
                 else ui_color)
              else (risk_level, ui_color))
      in
      if is_source then
        \<lparr>si_delta = delta, si_failure_mode = failure_mode, si_risk_type = ''FAILURE_SOURCE'',
         si_risk_level = ''critical'', si_ui_color = ''#000000'', si_confidence = 1.0,
         si_confidence_label = ''high'', si_pessimistic_delta = 1.0,
         si_alert_level = ''critical''\<rparr>
      else if abs_delta < 0.01 then
        \<lparr>si_delta = delta, si_failure_mode = failure_mode, si_risk_type = ''UNAFFECTED'',
         si_risk_level = ''low'', si_ui_color = ''#9E9E9E'', si_confidence = confidence,
         si_confidence_label = confidence_label, si_pessimistic_delta = pessimistic_delta,
         si_alert_level = alert_level\<rparr>
      else if failure_mode = DEMAND_LOSS then
        interpret_demand_loss delta node_name risk_level ui_color confidence confidence_label
          pessimistic_delta alert_level
      else if failure_mode = SUPPLY_CUT then
        interpret_supply_cut delta node_name risk_level ui_color confidence confidence_label
          pessimistic_delta alert_level
      else if failure_mode = CONTAMINATION then
        interpret_contamination delta node_name risk_level ui_color confidence confidence_label
          pessimistic_delta alert_level
      else if failure_mode = CONTROL_FAILURE then
        interpret_control_failure delta node_name risk_level ui_color confidence confidence_label
          pessimistic_delta alert_level
      else
        interpret_raw_delta delta node_name risk_level ui_color confidence confidence_label
          pessimistic_delta alert_level)"

subsection \<open>The simulation run\<close>

text \<open>
  The entries of the report are Python dictionaries; key \<open>k\<close> of a node entry is field
  \<open>nd_k\<close>, key \<open>k\<close> of the summary is field \<open>sm_k\<close>, and the three parts of the result
  are \<open>rep_summary\<close>, \<open>rep_nodes\<close> and \<open>rep_raw\<close>.
\<close>

record node_result =
  nd_node_id :: nat
  nd_node_name :: string
  nd_baseline :: real
  nd_simulated :: real
  nd_delta :: real
  nd_pessimistic_delta :: "real option"
  nd_is_failed_source :: bool
  nd_interpretation :: SemanticInterpretation

text \<open>
  \<^verbatim>\<open>SimulationEngine._summarize_interpretations\<close>, lines 638-683, up to the rendering of
  the text: \<open>None\<close> stands for the sentence that no significant downstream impact was
  detected; otherwise the summary carries the failure mode that selects the opening
  words, the parts (risk type and count, most frequent first) and, in pessimistic mode,
  the non-zero counts of the critical, high and elevated alerts.
\<close>

record interpretation_summary =
  is_mode :: FailureMode
  is_parts :: "(string \<times> nat) list"
  is_alerts :: "(string \<times> nat) list"

text \<open>\<^verbatim>\<open>risk_counts[risk_type] = risk_counts.get(risk_type, 0) + 1\<close> on a dictionary
  that keeps its keys in the order of their first insertion.\<close>

fun count_risk :: "string \<Rightarrow> (string \<times> nat) list \<Rightarrow> (string \<times> nat) list" where
  "count_risk k [] = [(k, 1)]"
| "count_risk k ((k', c) # rest) =
     (if k' = k then (k', c + 1) # rest else (k', c) # count_risk k rest)"

definition summarize_interpretations ::
  "node_result list \<Rightarrow> FailureMode \<Rightarrow> bool \<Rightarrow> interpretation_summary option"
where
  "summarize_interpretations report failure_mode pessimistic_mode =
     (let affected = filter (\<lambda>r. \<bar>nd_delta r\<bar> > 0.01 \<and> \<not> nd_is_failed_source r) report in
      if affected = [] then None
      else
        let risk_counts = fold (\<lambda>r. count_risk (si_risk_type (nd_interpretation r))) affected [];
            alert_count = (\<lambda>level.
               length (filter (\<lambda>r. si_alert_level (nd_interpretation r) = level) affected));
            parts = sort_key (\<lambda>kc. - int (snd kc)) risk_counts;
            alerts = (if pessimistic_mode then
                        filter (\<lambda>a. snd a > 0)
                          [(''CRITICAL'', alert_count ''critical''),
                           (''HIGH'', alert_count ''high''),
                           (''ELEVATED'', alert_count ''elevated'')]
                      else [])
        in Some \<lparr>is_mode = failure_mode, is_parts = parts, is_alerts = alerts\<rparr>)"

record simulation_summary =
  sm_total_nodes :: nat
  sm_failed_nodes :: "int list"
  sm_failed_names :: "string list"
  sm_failure_mode :: FailureMode
  sm_pessimistic_mode :: bool
  sm_affected_count :: nat
  sm_max_delta :: real
  sm_mean_delta :: real
  sm_max_pessimistic_delta :: "real option"
  sm_interpretation_summary :: "interpretation_summary option"

record raw_arrays =
  raw_baseline :: "real list"
  raw_simulated :: "real list"
  raw_deltas :: "real list"

record simulation_report =
  rep_summary :: simulation_summary
  rep_nodes :: "node_result list"
  rep_raw :: raw_arrays

text \<open>The decimal digits of a number, for the default node names \<^verbatim>\<open>f"Node_{i}"\<close>.\<close>

fun py_str :: "nat \<Rightarrow> string" where
  "py_str i =
     (let digit = (\<lambda>d. ''0123456789'' ! d) in
      if i < 10 then [digit i] else py_str (i div 10) @ [digit (i mod 10)])"

definition default_node_names :: "nat \<Rightarrow> string list" where
  "default_node_names num_nodes = map (\<lambda>i. ''Node_'' @ py_str i) [0..<num_nodes]"

text \<open>
  Lines 274-278: the copy of the features in which the status feature (column 12) of
  every node of \<^verbatim>\<open>failed_nodes\<close> is set to 0.0. The write \<^verbatim>\<open>x_sim[node_idx, 12] = 0.0\<close>
  raises \<^verbatim>\<open>IndexError\<close> when the row or the column does not exist.
\<close>

definition status_col :: int where
  "status_col = 12"

fun force_failures :: "real list list \<Rightarrow> int list \<Rightarrow> error + real list list" where
  "force_failures x_sim [] = Inr x_sim"
| "force_failures x_sim (node_idx # rest) =
     bind_err (np_index (length x_sim) node_idx) (\<lambda>r.
     bind_err (np_index (length (x_sim ! r)) status_col) (\<lambda>c.
       force_failures (x_sim[r := (x_sim ! r)[c := 0.0]]) rest))"

text \<open>Lines 293-298: the amplified deltas, all zero outside pessimistic mode.\<close>

definition compute_pessimistic_deltas ::
  "real list \<Rightarrow> real list \<Rightarrow> nat \<Rightarrow> bool \<Rightarrow> error + real list"
where
  "compute_pessimistic_deltas deltas topology_weights num_nodes pessimistic_mode =
     (if pessimistic_mode then
        sequence_err (map (\<lambda>i.
          bind_err (np_get deltas (int i)) (\<lambda>d.
          bind_err (np_get topology_weights (int i)) (\<lambda>tw.
            Inr (fst (calculate_pessimistic_delta d tw))))) [0..<num_nodes])
      else Inr (replicate num_nodes 0))"

text \<open>Lines 301-321: one entry per node, in the order of the node indices.\<close>

definition build_report ::
  "real list \<Rightarrow> real list \<Rightarrow> real list \<Rightarrow> real list \<Rightarrow> real list \<Rightarrow> string list
     \<Rightarrow> int list \<Rightarrow> FailureMode \<Rightarrow> bool \<Rightarrow> nat \<Rightarrow> error + node_result list"
where
  "build_report deltas baseline_probs sim_probs topology_weights pessimistic_deltas node_names
       failed_nodes failure_mode pessimistic_mode num_nodes =
     sequence_err (map (\<lambda>i.
       bind_err (np_get deltas (int i)) (\<lambda>d.
       bind_err (np_get node_names (int i)) (\<lambda>name.
       bind_err (np_get topology_weights (int i)) (\<lambda>tw.
       bind_err (np_get baseline_probs (int i)) (\<lambda>b.
       bind_err (np_get sim_probs (int i)) (\<lambda>sim.
       bind_err (np_get pessimistic_deltas (int i)) (\<lambda>pd.
         Inr \<lparr>nd_node_id = i,
              nd_node_name = name,
              nd_baseline = b,
              nd_simulated = sim,
              nd_delta = d,
              nd_pessimistic_delta = (if pessimistic_mode then Some pd else None),
              nd_is_failed_source = (int i \<in> set failed_nodes),
              nd_interpretation =
                interpret_delta d name (int i \<in> set failed_nodes) failure_mode tw
                  pessimistic_mode\<rparr>))))))) [0..<num_nodes])"

text \<open>
  \<^verbatim>\<open>SimulationEngine.run_simulation\<close>, lines 238-350. The first component of the
  result counts the calls of the predictor made before the function returned or
  raised: the baseline prediction (line 268) comes before the write of the failed
  status (line 278), the counterfactual prediction (line 281) after it.
\<close>

definition run_simulation ::
  "predictor \<Rightarrow> real list list \<Rightarrow> (int \<times> int) list \<Rightarrow> real list \<Rightarrow> int list
     \<Rightarrow> string list option \<Rightarrow> FailureMode \<Rightarrow> bool \<Rightarrow> nat \<times> (error + simulation_report)"
where
  "run_simulation predict x edge_index edge_weight failed_nodes node_names failure_mode
       pessimistic_mode =
     (let num_nodes = length x;
          node_names = (case node_names of None \<Rightarrow> default_node_names num_nodes
                        | Some names \<Rightarrow> names)
      in
      case bind_err (predict_with_threshold predict x edge_index edge_weight 0.5)
             (\<lambda>(probs, alerts, risk). np_column0 probs) of
        Inl e \<Rightarrow> (1, Inl e)
      | Inr baseline_probs \<Rightarrow>
      (case force_failures x failed_nodes of
        Inl e \<Rightarrow> (1, Inl e)
      | Inr x_sim \<Rightarrow>
        (2,
         bind_err (predict_with_threshold predict x_sim edge_index edge_weight 0.5)
           (\<lambda>(probs, alerts, risk).
         bind_err (np_column0 probs) (\<lambda>sim_probs.
         bind_err (np_subtract sim_probs baseline_probs) (\<lambda>deltas.
         bind_err (compute_topology_weights edge_index edge_weight num_nodes)
           (\<lambda>topology_weights.
         bind_err (compute_pessimistic_deltas deltas topology_weights num_nodes pessimistic_mode)
           (\<lambda>pessimistic_deltas.
         bind_err (build_report deltas baseline_probs sim_probs topology_weights
                     pessimistic_deltas node_names failed_nodes failure_mode pessimistic_mode
                     num_nodes) (\<lambda>report.
         let report = py_sort_reverse (\<lambda>r. \<bar>nd_delta r\<bar>) report;
             affected_nodes = filter (\<lambda>r. \<bar>nd_delta r\<bar> > 0.01) report in
         bind_err (sequence_err (map (np_get node_names) failed_nodes)) (\<lambda>failed_names.
         bind_err (np_max (map abs deltas)) (\<lambda>max_delta.
         bind_err (np_mean (map abs deltas)) (\<lambda>mean_delta.
         bind_err (if pessimistic_mode
                   then bind_err (np_max pessimistic_deltas) (\<lambda>m. Inr (Some m))
                   else Inr None) (\<lambda>max_pessimistic_delta.
           Inr \<lparr>rep_summary =
                  \<lparr>sm_total_nodes = num_nodes,
                   sm_failed_nodes = failed_nodes,
                   sm_failed_names = failed_names,
                   sm_failure_mode = failure_mode,
                   sm_pessimistic_mode = pessimistic_mode,
                   sm_affected_count = length affected_nodes,
                   sm_max_delta = max_delta,
                   sm_mean_delta = mean_delta,
                   sm_max_pessimistic_delta = max_pessimistic_delta,
                   sm_interpretation_summary =
                     summarize_interpretations report failure_mode pessimistic_mode\<rparr>,
                rep_nodes = report,
                rep_raw = \<lparr>raw_baseline = baseline_probs, raw_simulated = sim_probs,
                            raw_deltas = deltas\<rparr>\<rparr>)))))))))))))"

subsection \<open>Causal attribution\<close>

text \<open>
  The three analyses of \<^verbatim>\<open>causal_attribution.py\<close>. What they print is left out; what
  they return is modelled. The expression \<^verbatim>\<open>pred[target_node_idx].mean()\<close> of lines 29,
  63, 135, 171, 257 and 269 is \<open>target_impact\<close>: the row of the target node, averaged over
  all of its output dimensions.
\<close>

definition target_impact :: "real list list \<Rightarrow> int \<Rightarrow> error + real" where
  "target_impact pred target_node_idx = bind_err (np_get pred target_node_idx) np_mean"

text \<open>The write \<^verbatim>\<open>x[i, j] = v\<close> on a copy of the matrix.\<close>

definition np_set2 :: "real list list \<Rightarrow> int \<Rightarrow> int \<Rightarrow> real \<Rightarrow> error + real list list" where
  "np_set2 x i j v =
     bind_err (np_index (length x) i) (\<lambda>r.
     bind_err (np_index (length (x ! r)) j) (\<lambda>c.
       Inr (x[r := (x ! r)[c := v]])))"

text \<open>\<^verbatim>\<open>np.argmax\<close>: the position of the first maximum; an empty array raises.\<close>

fun argmax_from :: "real list \<Rightarrow> nat \<Rightarrow> nat \<Rightarrow> real \<Rightarrow> nat" where
  "argmax_from [] i best best_value = best"
| "argmax_from (v # vs) i best best_value =
     (if v > best_value then argmax_from vs (Suc i) i v
      else argmax_from vs (Suc i) best best_value)"

definition np_argmax :: "real list \<Rightarrow> error + nat" where
  "np_argmax vs = (case vs of [] \<Rightarrow> Inl ValueError | v # rest \<Rightarrow> Inr (argmax_from rest 1 0 v))"

definition type_names :: "string list" where
  "type_names = [''Road'', ''Building'', ''Power'', ''Tank'', ''Pump'', ''Pipe'',
                 ''Sensor'', ''Cluster'', ''Bridge'', ''School'', ''Hospital'', ''Market'']"

text \<open>Lines 69-72 and 177-180: the type name of a node, from the one-hot block of its
  first 12 features.\<close>

definition node_type_of :: "real list list \<Rightarrow> int \<Rightarrow> error + string" where
  "node_type_of x idx =
     bind_err (np_get x idx) (\<lambda>row.
     bind_err (np_argmax (take 12 row)) (\<lambda>node_type_idx.
       np_get type_names (int node_type_idx)))"

record perturbation_result =
  pr_neighbor_idx :: int
  pr_node_type :: string
  pr_baseline_impact :: real
  pr_perturbed_impact :: real
  pr_causal_effect :: real

text \<open>Lines 56-59: the neighbor set to its failed state (status 15, level 13, flow 14).\<close>

definition perturb_features :: "real list list \<Rightarrow> int \<Rightarrow> error + real list list" where
  "perturb_features x neighbor_idx =
     bind_err (np_set2 x neighbor_idx 15 0.0) (\<lambda>x_perturbed.
     bind_err (np_set2 x_perturbed neighbor_idx 13 0.0) (\<lambda>x_perturbed.
       np_set2 x_perturbed neighbor_idx 14 0.0))"

text \<open>Lines 54-80: the body of the loop over the upstream neighbors.\<close>

definition perturb_neighbor ::
  "predictor \<Rightarrow> real list list \<Rightarrow> (int \<times> int) list \<Rightarrow> real list \<Rightarrow> int \<Rightarrow> real \<Rightarrow> int
     \<Rightarrow> error + perturbation_result"
where
  "perturb_neighbor predict x edge_index edge_attr target_node_idx baseline_impact neighbor_idx =
     bind_err (perturb_features x neighbor_idx) (\<lambda>x_perturbed.
       let perturbed_pred = predict x_perturbed edge_index edge_attr in
     bind_err (target_impact perturbed_pred target_node_idx) (\<lambda>perturbed_impact.
       let causal_effect = perturbed_impact - baseline_impact in
     bind_err (node_type_of x neighbor_idx) (\<lambda>node_type.
       Inr \<lparr>pr_neighbor_idx = neighbor_idx,
            pr_node_type = node_type,
            pr_baseline_impact = baseline_impact,
            pr_perturbed_impact = perturbed_impact,
            pr_causal_effect = causal_effect\<rparr>)))"

text \<open>
  \<^verbatim>\<open>node_perturbation_analysis\<close>, lines 16-119. The neighbors are the sources of the
  edges into the target, without duplicates. Python does not fix the order in which
  \<^verbatim>\<open>list(set(neighbors))\<close> lists them; the model takes \<^const>\<open>remdups\<close>. The order only
  decides how results with equal keys follow each other after the final sort.
\<close>

definition node_perturbation_analysis ::
  "predictor \<Rightarrow> real list list \<Rightarrow> (int \<times> int) list \<Rightarrow> real list \<Rightarrow> int
     \<Rightarrow> error + perturbation_result list"
where
  "node_perturbation_analysis predict x edge_index edge_attr target_node_idx =
     (let baseline_pred = predict x edge_index edge_attr in
      bind_err (target_impact baseline_pred target_node_idx) (\<lambda>baseline_impact.
        let neighbors = map fst (filter (\<lambda>e. snd e = target_node_idx) edge_index);
            neighbors = remdups neighbors
        in
        if length neighbors = 0 then Inr []
        else
          bind_err (sequence_err (map
            (perturb_neighbor predict x edge_index edge_attr target_node_idx baseline_impact)
            neighbors)) (\<lambda>results.
          Inr (py_sort_reverse (\<lambda>r. \<bar>pr_causal_effect r\<bar>) results))))"

record occlusion_result =
  oc_edge_idx :: nat
  oc_source_idx :: int
  oc_source_type :: string
  oc_edge_weight :: real
  oc_baseline_impact :: real
  oc_occluded_impact :: real
  oc_causal_effect :: real

text \<open>
  Lines 163-167: the arrays without position \<open>edge_idx\<close>. Indexing the edge attributes
  with the boolean mask raises \<^verbatim>\<open>IndexError\<close> unless there is one attribute per edge.
\<close>

definition mask_out :: "'a list \<Rightarrow> nat \<Rightarrow> 'a list" where
  "mask_out xs edge_idx = take edge_idx xs @ drop (Suc edge_idx) xs"

text \<open>Lines 158-192: the body of the loop over the incoming edges.\<close>

definition occlude_edge ::
  "predictor \<Rightarrow> real list list \<Rightarrow> (int \<times> int) list \<Rightarrow> real list \<Rightarrow> int \<Rightarrow> real \<Rightarrow> nat
     \<Rightarrow> error + occlusion_result"
where
  "occlude_edge predict x edge_index edge_attr target_node_idx baseline_impact edge_idx =
     (let source_idx = fst (edge_index ! edge_idx);
          edge_index_occluded = mask_out edge_index edge_idx in
      bind_err (if length edge_attr = length edge_index
                then Inr (mask_out edge_attr edge_idx) else Inl IndexError)
        (\<lambda>edge_attr_occluded.
        let occluded_pred = predict x edge_index_occluded edge_attr_occluded in
      bind_err (target_impact occluded_pred target_node_idx) (\<lambda>occluded_impact.
        let causal_effect = occluded_impact - baseline_impact in
      bind_err (node_type_of x source_idx) (\<lambda>source_type.
      bind_err (np_get edge_attr (int edge_idx)) (\<lambda>edge_weight.
        Inr \<lparr>oc_edge_idx = edge_idx,
             oc_source_idx = source_idx,
             oc_source_type = source_type,
             oc_edge_weight = edge_weight,
             oc_baseline_impact = baseline_impact,
             oc_occluded_impact = occluded_impact,
             oc_causal_effect = causal_effect\<rparr>)))))"

text \<open>\<^verbatim>\<open>edge_occlusion_analysis\<close>, lines 122-239.\<close>

definition edge_occlusion_analysis ::
  "predictor \<Rightarrow> real list list \<Rightarrow> (int \<times> int) list \<Rightarrow> real list \<Rightarrow> int
     \<Rightarrow> error + occlusion_result list"
where
  "edge_occlusion_analysis predict x edge_index edge_attr target_node_idx =
     (let baseline_pred = predict x edge_index edge_attr in
      bind_err (target_impact baseline_pred target_node_idx) (\<lambda>baseline_impact.
        let incoming_edges =
              filter (\<lambda>i. snd (edge_index ! i) = target_node_idx) [0..<length edge_index]
        in
        if length incoming_edges = 0 then Inr []
        else
          bind_err (sequence_err (map
            (occlude_edge predict x edge_index edge_attr target_node_idx baseline_impact)
            incoming_edges)) (\<lambda>results.
          Inr (sort_key oc_causal_effect results))))"

record counterfactual_result =
  cf_current_impact :: real
  cf_repaired_impact :: real
  cf_benefit :: real

text \<open>Lines 263-266: the failed node set to healthy reference values.\<close>

definition repair_features :: "real list list \<Rightarrow> int \<Rightarrow> error + real list list" where
  "repair_features x failed_node_idx =
     bind_err (np_set2 x failed_node_idx 15 0.9) (\<lambda>x_repaired.
     bind_err (np_set2 x_repaired failed_node_idx 13 0.8) (\<lambda>x_repaired.
       np_set2 x_repaired failed_node_idx 14 0.7))"

text \<open>\<^verbatim>\<open>counterfactual_analysis\<close>, lines 242-296.\<close>

definition counterfactual_analysis ::
  "predictor \<Rightarrow> real list list \<Rightarrow> (int \<times> int) list \<Rightarrow> real list \<Rightarrow> int \<Rightarrow> int
     \<Rightarrow> error + counterfactual_result"
where
  "counterfactual_analysis predict x edge_index edge_attr target_node_idx failed_node_idx =
     (let current_pred = predict x edge_index edge_attr in
      bind_err (target_impact current_pred target_node_idx) (\<lambda>current_impact.
      bind_err (repair_features x failed_node_idx) (\<lambda>x_repaired.
        let repaired_pred = predict x_repaired edge_index edge_attr in
      bind_err (target_impact repaired_pred target_node_idx) (\<lambda>repaired_impact.
        let benefit = current_impact - repaired_impact in
        Inr \<lparr>cf_current_impact = current_impact,
             cf_repaired_impact = repaired_impact,
             cf_benefit = benefit\<rparr>))))"

subsection \<open>Requests of the data model\<close>

text \<open>
  The requests the specification describes (sections 3, 4.2 and 6), used as the
  hypothesis of the theorems about whole runs: at least one node; every node with the
  status feature, that is more than 12 features; edges between existing nodes, one
  non-negative weight per edge; the indices of the nodes to fail within \<open>[0, N)\<close>; one
  name per node when names are given; and a predictor that answers the baseline and the
  counterfactual call with one non-empty row of probabilities per node.
  \<open>forced_features\<close> is the feature matrix of the counterfactual call for such indices.
\<close>

definition shape_ok :: "nat \<Rightarrow> real list list \<Rightarrow> bool" where
  "shape_ok n probs = (length probs = n \<and> list_all (\<lambda>r. r \<noteq> []) probs)"

definition forced_features :: "real list list \<Rightarrow> int list \<Rightarrow> real list list" where
  "forced_features x failed = fold (\<lambda>i xs. xs[nat i := (xs ! nat i)[12 := 0]]) failed x"

definition well_formed_request ::
  "predictor \<Rightarrow> real list list \<Rightarrow> (int \<times> int) list \<Rightarrow> real list \<Rightarrow> int list
     \<Rightarrow> string list option \<Rightarrow> bool"
where
  "well_formed_request predict x edge_index edge_weight failed_nodes node_names =
     (let n = length x in
      0 < n \<and>
      list_all (\<lambda>row. 12 < length row) x \<and>
      list_all (\<lambda>e. 0 \<le> fst e \<and> fst e < int n \<and> 0 \<le> snd e \<and> snd e < int n) edge_index \<and>
      length edge_weight = length edge_index \<and>
      list_all (\<lambda>w. 0 \<le> w) edge_weight \<and>
      list_all (\<lambda>i. 0 \<le> i \<and> i < int n) failed_nodes \<and>
      (case node_names of None \<Rightarrow> True | Some names \<Rightarrow> length names = n) \<and>
      shape_ok n (predict x edge_index edge_weight) \<and>
      shape_ok n (predict (forced_features x failed_nodes) edge_index edge_weight))"

text \<open>
  The entry the loop of lines 301-321 writes for node \<open>i\<close> when every array it reads has
  an element at \<open>i\<close>.
\<close>

definition node_entry ::
  "real list \<Rightarrow> real list \<Rightarrow> real list \<Rightarrow> real list \<Rightarrow> real list \<Rightarrow> string list
     \<Rightarrow> int list \<Rightarrow> FailureMode \<Rightarrow> bool \<Rightarrow> nat \<Rightarrow> node_result"
where
  "node_entry deltas baseline_probs sim_probs topology_weights pessimistic_deltas node_names
       failed_nodes failure_mode pessimistic_mode i =
     \<lparr>nd_node_id = i,
      nd_node_name = node_names ! i,
      nd_baseline = baseline_probs ! i,
      nd_simulated = sim_probs ! i,
      nd_delta = deltas ! i,
      nd_pessimistic_delta = (if pessimistic_mode then Some (pessimistic_deltas ! i) else None),
      nd_is_failed_source = (int i \<in> set failed_nodes),
      nd_interpretation =
        interpret_delta (deltas ! i) (node_names ! i) (int i \<in> set failed_nodes) failure_mode
          (topology_weights ! i) pessimistic_mode\<rparr>"

subsection \<open>Example predictors and nodes\<close>

text \<open>
  Two small predictors for the concrete runs below, both with values in [0, 1] on
  features in [0, 1]: one makes the impact of a node the complement of its own status
  (with a second output dimension that is always 0), the other makes the impact of every
  node the complement of the status of node 0. \<open>healthy_node\<close> is a feature vector of
  24 entries: a tank (type slot 3) with status 1.
\<close>

definition status_predictor :: predictor where
  "status_predictor x edge_index edge_weight = map (\<lambda>row. [1 - row ! 12, 0]) x"

definition upstream_predictor :: predictor where
  "upstream_predictor x edge_index edge_weight = map (\<lambda>row. [1 - (x ! 0) ! 12]) x"

definition healthy_node :: "real list" where
  "healthy_node =
     [0, 0, 0, 1, 0, 0, 0, 0, 0, 0, 0, 0,
      1, 0.8, 0.7, 0.9, 0.8, 0.6, 0.7, 0.8, 0.9, 0.1, 0.1, 0]"

text \<open>
  A predictor for the causal analyses: every node gets the same two outputs, the first
  falling with the status features (index 15) of nodes 0 and 1, the second a quarter of
  the total edge weight.
\<close>

definition mixing_predictor :: predictor where
  "mixing_predictor x edge_index edge_weight =
     map (\<lambda>row. [1 - (x ! 0) ! 15 / 2 - (x ! 1) ! 15 / 4, sum_list edge_weight / 4]) x"

section \<open>Properties of the confidence and amplification module\<close>

text \<open>
  Claim C6. For every delta and topology weight, the pessimistic amplification returns
  \<open>min((delta ** 0.5) * 2.0 * tw, 1.0)\<close> when delta is positive and \<open>delta * 0.1\<close> with
  alert level normal when delta is zero or negative; for a positive delta the alert
  level, read off the returned amplified value, is critical exactly when that value is
  at least 0.8, high exactly when it is in [0.5, 0.8), elevated exactly when it is in
  [0.2, 0.5), and normal exactly when it is below 0.2. The statement holds for every
  topology weight, in particular for those in [0, 1].
\<close>

theorem pessimistic_delta_formula:
  "(0 < delta \<longrightarrow>
      fst (calculate_pessimistic_delta delta tw) = min ((delta powr 0.5) * 2.0 * tw) 1.0 \<and>
      (snd (calculate_pessimistic_delta delta tw) = ''critical''
         \<longleftrightarrow> 0.8 \<le> fst (calculate_pessimistic_delta delta tw)) \<and>
      (snd (calculate_pessimistic_delta delta tw) = ''high''
         \<longleftrightarrow> 0.5 \<le> fst (calculate_pessimistic_delta delta tw)
             \<and> fst (calculate_pessimistic_delta delta tw) < 0.8) \<and>
      (snd (calculate_pessimistic_delta delta tw) = ''elevated''
         \<longleftrightarrow> 0.2 \<le> fst (calculate_pessimistic_delta delta tw)
             \<and> fst (calculate_pessimistic_delta delta tw) < 0.5) \<and>
      (snd (calculate_pessimistic_delta delta tw) = ''normal''
         \<longleftrightarrow> fst (calculate_pessimistic_delta delta tw) < 0.2)) \<and>
   (delta \<le> 0 \<longrightarrow>
      calculate_pessimistic_delta delta tw = (delta * 0.1, ''normal''))"
proof (intro conjI impI)
  assume pos: "0 < delta"
  define p where "p = (delta powr 0.5) * 2.0 * tw"
  have amp: "fst (calculate_pessimistic_delta delta tw) = min p 1.0"
    using pos by (simp only: calculate_pessimistic_delta_def Let_def p_def if_True fst_conv)
  have lvl: "snd (calculate_pessimistic_delta delta tw) =
               (if p \<ge> 0.8 then ''critical'' else if p \<ge> 0.5 then ''high''
                else if p \<ge> 0.2 then ''elevated'' else ''normal'')"
    using pos by (simp only: calculate_pessimistic_delta_def Let_def p_def if_True snd_conv)
  show "fst (calculate_pessimistic_delta delta tw) = min ((delta powr 0.5) * 2.0 * tw) 1.0"
    using amp by (simp add: p_def)
  show "snd (calculate_pessimistic_delta delta tw) = ''critical''
          \<longleftrightarrow> 0.8 \<le> fst (calculate_pessimistic_delta delta tw)"
    unfolding amp lvl by (auto simp: min_def)
  show "snd (calculate_pessimistic_delta delta tw) = ''high''
          \<longleftrightarrow> 0.5 \<le> fst (calculate_pessimistic_delta delta tw)
              \<and> fst (calculate_pessimistic_delta delta tw) < 0.8"
    unfolding amp lvl by (auto simp: min_def)
  show "snd (calculate_pessimistic_delta delta tw) = ''elevated''
          \<longleftrightarrow> 0.2 \<le> fst (calculate_pessimistic_delta delta tw)
              \<and> fst (calculate_pessimistic_delta delta tw) < 0.5"
    unfolding amp lvl by (auto simp: min_def)
  show "snd (calculate_pessimistic_delta delta tw) = ''normal''
          \<longleftrightarrow> fst (calculate_pessimistic_delta delta tw) < 0.2"
    unfolding amp lvl by (auto simp: min_def)
next
  assume "delta \<le> 0"
  then show "calculate_pessimistic_delta delta tw = (delta * 0.1, ''normal'')"
    by (simp add: calculate_pessimistic_delta_def Let_def)
qed

theorem pessimistic_delta_formula_witness:
  "fst (calculate_pessimistic_delta 1 (1/4)) = 1/2 \<and>
   snd (calculate_pessimistic_delta 1 (1/4)) = ''high'' \<and>
   calculate_pessimistic_delta (-1) (1/4) = (-1/10, ''normal'')"
  using pessimistic_delta_formula [of 1 "1/4"] pessimistic_delta_formula [of "-1" "1/4"]
  by simp

text \<open>
  Claim C7. For every fixed topology weight in [0, 1], the amplified value is
  non-decreasing in delta on the region of positive deltas, and it is at most 1.0 for
  every delta, positive, zero or negative.
\<close>

theorem pessimistic_delta_monotone_bounded:
  assumes "0 \<le> tw" and "tw \<le> 1"
  shows "(0 < d1 \<and> d1 \<le> d2 \<longrightarrow>
            fst (calculate_pessimistic_delta d1 tw) \<le> fst (calculate_pessimistic_delta d2 tw)) \<and>
         fst (calculate_pessimistic_delta d tw) \<le> 1"
proof (intro conjI impI)
  assume h: "0 < d1 \<and> d1 \<le> d2"
  then have "d1 powr 0.5 \<le> d2 powr 0.5"
    by (intro powr_mono2) simp_all
  then have "d1 powr 0.5 * 2.0 * tw \<le> d2 powr 0.5 * 2.0 * tw"
    using assms(1) by (intro mult_right_mono) simp_all
  then have "min (d1 powr 0.5 * 2.0 * tw) 1 \<le> min (d2 powr 0.5 * 2.0 * tw) 1"
    by (simp add: min_def)
  with h show "fst (calculate_pessimistic_delta d1 tw) \<le> fst (calculate_pessimistic_delta d2 tw)"
    by (simp add: calculate_pessimistic_delta_def Let_def)
next
  show "fst (calculate_pessimistic_delta d tw) \<le> 1"
    by (simp add: calculate_pessimistic_delta_def Let_def)
qed

theorem pessimistic_delta_monotone_bounded_witness:
  "(0::real) \<le> 1/4 \<and> (1/4::real) \<le> 1 \<and> (0::real) < 1 \<and> (1::real) \<le> 2 \<and>
   fst (calculate_pessimistic_delta 1 (1/4)) \<le> fst (calculate_pessimistic_delta 2 (1/4)) \<and>
   fst (calculate_pessimistic_delta (-3) (1/4)) \<le> 1"
  using pessimistic_delta_monotone_bounded [of "1/4" 1 2 "-3"]
  by simp

text \<open>
  Claim C8. For every delta and topology weight, the confidence score equals
  \<open>clamp(min(|delta| * 2, 1.0) * tw, 0, 1)\<close>, and its label is low exactly when the score
  is below 0.2, medium exactly when it is in [0.2, 0.5), and high otherwise. The
  statement holds for every topology weight, in particular for those in [0, 1].
\<close>

theorem confidence_formula:
  "fst (compute_confidence delta tw) = spec_confidence delta tw \<and>
   (snd (compute_confidence delta tw) = ''low'' \<longleftrightarrow> fst (compute_confidence delta tw) < 0.2) \<and>
   (snd (compute_confidence delta tw) = ''medium''
      \<longleftrightarrow> 0.2 \<le> fst (compute_confidence delta tw) \<and> fst (compute_confidence delta tw) < 0.5) \<and>
   (snd (compute_confidence delta tw) = ''high'' \<longleftrightarrow> 0.5 \<le> fst (compute_confidence delta tw))"
proof -
  define v where "v = min (\<bar>delta\<bar> * 2) 1.0 * tw"
  define c where "c = max 0.0 (min 1.0 v)"
  have conf: "fst (compute_confidence delta tw) = c"
    by (simp only: compute_confidence_def Let_def c_def v_def fst_conv)
  have lbl: "snd (compute_confidence delta tw) =
               (if c < 0.2 then ''low'' else if c < 0.5 then ''medium'' else ''high'')"
    by (simp only: compute_confidence_def Let_def c_def v_def snd_conv)
  have "c = clamp v 0 1"
    by (simp add: c_def clamp_def min_def max_def)
  then have "c = spec_confidence delta tw"
    by (simp add: spec_confidence_def v_def)
  then show ?thesis
    unfolding conf lbl by auto
qed

theorem confidence_formula_witness:
  "fst (compute_confidence (1/8) 1) = 1/4 \<and> spec_confidence (1/8) 1 = 1/4 \<and>
   snd (compute_confidence (1/8) 1) = ''medium''"
  using confidence_formula [of "1/8" 1]
  by (simp add: spec_confidence_def clamp_def)

section \<open>Properties of the topology weight calculator\<close>

lemma np_index_valid: "0 \<le> i \<Longrightarrow> i < int n \<Longrightarrow> np_index n i = Inr (nat i)"
  by (simp add: np_index_def)

lemma nth_bump2:
  "s < length xs \<Longrightarrow> d < length xs \<Longrightarrow> v < length xs \<Longrightarrow>
   ((xs[s := xs ! s + a])[d := (xs[s := xs ! s + a]) ! d + a]) ! v
     = xs ! v + (if v = s then a else 0) + (if v = d then (a::real) else 0)"
  by (auto simp: nth_list_update)

lemma edge_weights_from_Suc:
  "edge_weights_from ew i (Suc k) = (if i < length ew then ew ! i else 1) # edge_weights_from ew (Suc i) k"
  by (simp add: edge_weights_from_def upt_rec)

lemma spec_degree_Cons:
  "real (spec_degree ((s, d) # es) v) =
     (if v = s then 1 else 0) + (if v = d then 1 else 0) + real (spec_degree es v)"
  by (simp add: spec_degree_def)

lemma spec_weight_sum_Cons:
  "spec_weight_sum (((s, d), w) # ews) v =
     (if v = s then w else 0) + (if v = d then w else 0) + spec_weight_sum ews v"
  by (simp add: spec_weight_sum_def)

lemma topology_loop_valid:
  assumes "\<forall>e\<in>set es. 0 \<le> fst e \<and> fst e < int n \<and> 0 \<le> snd e \<and> snd e < int n"
    and "length deg = n" and "length wsum = n"
  shows "topology_loop es ew i (deg, wsum) =
           Inr (map (\<lambda>v. deg ! v + real (spec_degree es (int v))) [0..<n],
                map (\<lambda>v. wsum ! v + spec_weight_sum (zip es (edge_weights_from ew i (length es))) (int v)) [0..<n])"
  using assms
proof (induction es arbitrary: i deg wsum)
  case Nil
  then have "map ((!) deg) [0..<n] = deg" and "map ((!) wsum) [0..<n] = wsum"
    using map_nth [of deg] map_nth [of wsum] by auto
  then show ?case
    by (simp add: spec_degree_def spec_weight_sum_def edge_weights_from_def)
next
  case (Cons e es)
  obtain s d where e: "e = (s, d)" by (cases e)
  define w where "w = (if i < length ew then ew ! i else 1)"
  define deg' where "deg' = (deg[nat s := deg ! nat s + 1])[nat d := (deg[nat s := deg ! nat s + 1]) ! nat d + 1]"
  define wsum' where "wsum' = (wsum[nat s := wsum ! nat s + w])[nat d := (wsum[nat s := wsum ! nat s + w]) ! nat d + w]"
  from Cons.prems e have sd: "0 \<le> s" "s < int n" "0 \<le> d" "d < int n"
    by auto
  then have sdn: "nat s < n" "nat d < n" by auto
  have step: "topology_loop (e # es) ew i (deg, wsum) = topology_loop es ew (Suc i) (deg', wsum')"
    using sd Cons.prems(2,3)
    by (simp add: e np_index_valid bind_err_def Let_def deg'_def wsum'_def w_def)
  have len: "length deg' = n" "length wsum' = n"
    using Cons.prems by (simp_all add: deg'_def wsum'_def)
  have rest: "\<forall>e\<in>set es. 0 \<le> fst e \<and> fst e < int n \<and> 0 \<le> snd e \<and> snd e < int n"
    using Cons.prems(1) by simp
  have dv: "deg' ! v = deg ! v + (if v = nat s then 1 else 0) + (if v = nat d then 1 else 0)"
    if "v < n" for v
    unfolding deg'_def using that sdn Cons.prems(2) by (intro nth_bump2) simp_all
  have wv: "wsum' ! v = wsum ! v + (if v = nat s then w else 0) + (if v = nat d then w else 0)"
    if "v < n" for v
    unfolding wsum'_def using that sdn Cons.prems(3) by (intro nth_bump2) simp_all
  have eqs: "int v = s \<longleftrightarrow> v = nat s" "int v = d \<longleftrightarrow> v = nat d" for v
    using sd by auto
  show ?case
    unfolding step Cons.IH [OF rest len]
    by (auto simp: e dv wv spec_degree_Cons spec_weight_sum_Cons edge_weights_from_Suc w_def eqs)
qed

lemma sequence_err_map_Inr:
  "(\<forall>x\<in>set xs. f x = Inr (g x)) \<Longrightarrow> sequence_err (map f xs) = Inr (map g xs)"
  by (induction xs) simp_all

lemma np_max_Max: "vs \<noteq> [] \<Longrightarrow> np_max vs = Inr (Max (set vs))"
  by (cases vs) (simp_all add: Max.set_eq_fold [symmetric])

lemma edge_weights_from_all: "length ew = k \<Longrightarrow> edge_weights_from ew 0 k = ew"
  by (auto simp: edge_weights_from_def intro!: nth_equalityI)

lemma spec_weight_sum_nonneg:
  "(\<forall>w\<in>set ws. 0 \<le> w) \<Longrightarrow> 0 \<le> spec_weight_sum (zip es ws) v"
  unfolding spec_weight_sum_def
  by (intro add_nonneg_nonneg sum_list_nonneg) (auto dest: set_zip_rightD)

lemma spec_raw_weight_nonneg:
  "(\<forall>w\<in>set ws. 0 \<le> w) \<Longrightarrow> 0 \<le> spec_raw_weight es ws v"
  by (simp add: spec_raw_weight_def Let_def spec_weight_sum_nonneg)

lemma topology_weights_code_eq_spec:
  assumes n: "0 < n"
    and valid: "\<forall>e\<in>set es. 0 \<le> fst e \<and> fst e < int n \<and> 0 \<le> snd e \<and> snd e < int n"
    and len: "length ew = length es"
    and nonneg: "\<forall>w\<in>set ew. 0 \<le> w"
  shows "compute_topology_weights es ew n = Inr (spec_topology_weights es ew n)"
proof -
  define deg where "deg = map (\<lambda>v. real (spec_degree es (int v))) [0..<n]"
  define wsum where "wsum = map (\<lambda>v. spec_weight_sum (zip es ew) (int v)) [0..<n]"
  define avg where "avg = map (\<lambda>v. if spec_degree es (int v) = 0 then 0
                         else spec_weight_sum (zip es ew) (int v) / real (spec_degree es (int v))) [0..<n]"
  define raw where "raw = map (\<lambda>v. spec_raw_weight es ew (int v)) [0..<n]"
  have loop: "topology_loop es ew 0 (replicate n 0, replicate n 0) = Inr (deg, wsum)"
    using topology_loop_valid [OF valid, of "replicate n 0" "replicate n 0" ew 0] len
    by (simp add: deg_def wsum_def edge_weights_from_all)
  have zipped: "zip wsum deg = map (\<lambda>v. (spec_weight_sum (zip es ew) (int v), real (spec_degree es (int v)))) [0..<n]"
    by (simp add: wsum_def deg_def zip_map_map zip_same_conv_map)
  have div: "np_divide_where_positive wsum deg = Inr avg"
    unfolding np_divide_where_positive_def zipped map_map avg_def
    by (intro sequence_err_map_Inr) (simp add: np_true_divide_def)
  have raw_eq: "map (\<lambda>(d, a). d * a) (zip deg avg) = raw"
    by (simp add: deg_def avg_def raw_def zip_map_map zip_same_conv_map spec_raw_weight_def Let_def)
  have raw_ne: "raw \<noteq> []"
    using n by (simp add: raw_def)
  have mx: "np_max raw = Inr (Max (set raw))"
    using raw_ne by (rule np_max_Max)
  have raw_nonneg: "\<forall>r\<in>set raw. 0 \<le> r"
    using nonneg by (auto simp: raw_def spec_raw_weight_nonneg)
  have max_nonneg: "0 \<le> Max (set raw)"
  proof -
    from raw_ne obtain r where r: "r \<in> set raw" by (cases raw) auto
    with raw_nonneg have "0 \<le> r" by simp
    also have "r \<le> Max (set raw)" using r by simp
    finally show ?thesis .
  qed
  have norm: "sequence_err (map (\<lambda>r. np_true_divide r (Max (set raw))) raw) = Inr (map (\<lambda>r. r / Max (set raw)) raw)"
    if "0 < Max (set raw)"
    using that by (intro sequence_err_map_Inr) (simp add: np_true_divide_def)
  have half: "map (\<lambda>one. one * 0.5) (replicate n (1::real)) = replicate n 0.5"
    by simp
  show ?thesis
  proof (cases "0 < Max (set raw)")
    case True
    then show ?thesis
      unfolding compute_topology_weights_def loop
      by (simp add: bind_err_def div raw_eq mx norm spec_topology_weights_def Let_def raw_def [symmetric])
  next
    case False
    with max_nonneg have "Max (set raw) = 0" by simp
    then show ?thesis
      unfolding compute_topology_weights_def loop
      by (simp add: bind_err_def div raw_eq mx spec_topology_weights_def Let_def raw_def [symmetric])
  qed
qed

lemma spec_topology_weights_range:
  assumes n: "0 < n" and nonneg: "\<forall>w\<in>set ew. 0 \<le> w"
  shows "\<forall>w\<in>set (spec_topology_weights es ew n). 0 \<le> w \<and> w \<le> 1"
proof -
  define raw where "raw = map (\<lambda>v. spec_raw_weight es ew (int v)) [0..<n]"
  have raw_ne: "raw \<noteq> []"
    using n by (simp add: raw_def)
  have raw_nonneg: "\<forall>r\<in>set raw. 0 \<le> r"
    using nonneg by (auto simp: raw_def spec_raw_weight_nonneg)
  have le_max: "\<forall>r\<in>set raw. r \<le> Max (set raw)"
    by simp
  have max_nonneg: "0 \<le> Max (set raw)"
  proof -
    from raw_ne obtain r where r: "r \<in> set raw" by (cases raw) auto
    with raw_nonneg have "0 \<le> r" by simp
    also have "r \<le> Max (set raw)" using r by simp
    finally show ?thesis .
  qed
  show ?thesis
  proof (cases "Max (set raw) = 0")
    case True
    then show ?thesis
      by (simp add: spec_topology_weights_def Let_def raw_def [symmetric])
  next
    case False
    with max_nonneg have pos: "0 < Max (set raw)" by simp
    have "0 \<le> r / Max (set raw) \<and> r / Max (set raw) \<le> 1" if "r \<in> set raw" for r
      using that pos raw_nonneg le_max by (simp add: divide_le_eq_1)
    with False show ?thesis
      by (auto simp: spec_topology_weights_def Let_def raw_def [symmetric])
  qed
qed

text \<open>A graph without nodes makes \<^verbatim>\<open>raw_weights.max()\<close> raise.\<close>

lemma topology_weights_no_nodes: "compute_topology_weights [] [] 0 = Inl ValueError"
  by (simp add: compute_topology_weights_def bind_err_def np_divide_where_positive_def)

text \<open>
  Claim C5. For every graph with at least one node, whose edges join existing nodes and
  carry one non-negative weight each, the topology weight calculator returns without
  error (so no division by zero is performed and no NaN arises), and what it returns is,
  per node, the raw value degree times average incident edge weight (the average of a
  node of degree 0 being 0) divided by the maximum raw value over all nodes, or 0.5 for
  every node when that maximum is 0, as for a graph without edges; every returned
  weight lies in [0, 1].
\<close>

theorem topology_weights_correct:
  assumes "0 < n"
    and "\<forall>e\<in>set es. 0 \<le> fst e \<and> fst e < int n \<and> 0 \<le> snd e \<and> snd e < int n"
    and "length ew = length es"
    and "\<forall>w\<in>set ew. 0 \<le> w"
  shows "compute_topology_weights es ew n = Inr (spec_topology_weights es ew n) \<and>
         length (spec_topology_weights es ew n) = n \<and>
         (\<forall>w\<in>set (spec_topology_weights es ew n). 0 \<le> w \<and> w \<le> 1) \<and>
         (es = [] \<longrightarrow> compute_topology_weights es ew n = Inr (replicate n 0.5))"
proof (intro conjI impI)
  show code: "compute_topology_weights es ew n = Inr (spec_topology_weights es ew n)"
    using assms by (rule topology_weights_code_eq_spec)
  show "length (spec_topology_weights es ew n) = n"
    by (simp add: spec_topology_weights_def Let_def)
  show "\<forall>w\<in>set (spec_topology_weights es ew n). 0 \<le> w \<and> w \<le> 1"
    using assms(1,4) by (rule spec_topology_weights_range)
  assume "es = []"
  moreover have "Max (set (map (\<lambda>v. 0::real) [0..<n])) = 0"
    using assms(1) by (simp add: image_constant_conv)
  ultimately have "spec_topology_weights es ew n = replicate n 0.5"
    by (simp add: spec_topology_weights_def Let_def spec_raw_weight_def spec_degree_def)
  with code show "compute_topology_weights es ew n = Inr (replicate n 0.5)"
    by simp
qed

theorem topology_weights_correct_witness:
  "compute_topology_weights [(0, 1), (1, 2)] [1/2, 1] 3 = Inr [1/3, 1, 2/3] \<and>
   compute_topology_weights [] [] 3 = Inr [1/2, 1/2, 1/2]"
proof -
  have spec: "spec_topology_weights [(0, 1), (1, 2)] [1/2, 1] 3 = [1/3, 1, 2/3]"
    by (simp add: spec_topology_weights_def spec_raw_weight_def spec_degree_def
        spec_weight_sum_def Let_def upt_rec)
  have three: "replicate 3 (1/2 :: real) = [1/2, 1/2, 1/2]"
    by (simp add: numeral_3_eq_3)
  have "compute_topology_weights [(0, 1), (1, 2)] [1/2, 1] 3 = Inr [1/3, 1, 2/3]"
    using topology_weights_correct [of 3 "[(0, 1), (1, 2)]" "[1/2, 1]"]
    by (simp add: spec)
  moreover have "compute_topology_weights [] [] 3 = Inr [1/2, 1/2, 1/2]"
    using topology_weights_correct [of 3 "[]" "[]", THEN conjunct2, THEN conjunct2, THEN conjunct2]
    by (simp add: three)
  ultimately show ?thesis by simp
qed

section \<open>Properties of the simulation run\<close>

lemma bind_err_Inr: "bind_err (Inr v) f = f v"
  by (simp add: bind_err_def)

lemma bind_err_Inl: "bind_err (Inl e) f = Inl e"
  by (simp add: bind_err_def)

lemma np_get_nat: "i < length xs \<Longrightarrow> np_get xs (int i) = Inr (xs ! i)"
  by (simp add: np_get_def np_index_def bind_err_def)

lemma np_get_valid: "0 \<le> i \<Longrightarrow> i < int (length xs) \<Longrightarrow> np_get xs i = Inr (xs ! nat i)"
  by (simp add: np_get_def np_index_def bind_err_def)

lemma np_column0_ok: "list_all (\<lambda>r. r \<noteq> []) rows \<Longrightarrow> np_column0 rows = Inr (map (\<lambda>r. r ! 0) rows)"
  by (auto simp: np_column0_def list_all_iff list_ex_iff)

lemma predict_with_threshold_ok:
  assumes "shape_ok n (predict x ei ew)" and "0 < n"
  shows "\<exists>alerts risk. predict_with_threshold predict x ei ew t = Inr (predict x ei ew, alerts, risk)"
proof -
  from assms have ne: "map (\<lambda>r. r ! 0) (predict x ei ew) \<noteq> []"
    by (auto simp: shape_ok_def)
  from assms have col: "np_column0 (predict x ei ew) = Inr (map (\<lambda>r. r ! 0) (predict x ei ew))"
    by (simp add: shape_ok_def np_column0_ok)
  show ?thesis
    by (simp add: predict_with_threshold_def Let_def col bind_err_def np_max_Max [OF ne])
qed

lemma predict_bind:
  assumes "shape_ok n (predict x ei ew)" and "0 < n"
  shows "bind_err (predict_with_threshold predict x ei ew t) (\<lambda>(probs, alerts, risk). f probs)
           = f (predict x ei ew)"
proof -
  from assms predict_with_threshold_ok [of n predict x ei ew t] obtain alerts risk
    where "predict_with_threshold predict x ei ew t = Inr (predict x ei ew, alerts, risk)"
    by blast
  then show ?thesis
    by (simp add: bind_err_def)
qed

lemma force_failures_ok:
  assumes "list_all (\<lambda>i. 0 \<le> i \<and> i < int (length x)) failed"
    and "list_all (\<lambda>row. 12 < length row) x"
  shows "force_failures x failed = Inr (forced_features x failed)"
  using assms
proof (induction failed arbitrary: x)
  case Nil
  then show ?case by (simp add: forced_features_def)
next
  case (Cons i rest)
  define x' where "x' = x[nat i := (x ! nat i)[12 := 0]]"
  from Cons.prems have i: "0 \<le> i" "i < int (length x)" by simp_all
  then have ni: "nat i < length x" by simp
  with Cons.prems(2) have row: "12 < length (x ! nat i)"
    by (simp add: list_all_length)
  have len: "length x' = length x" by (simp add: x'_def)
  have rows: "list_all (\<lambda>row. 12 < length row) x'"
    using Cons.prems(2) row ni unfolding x'_def list_all_length
    by (auto simp: nth_list_update)
  have rest: "list_all (\<lambda>i. 0 \<le> i \<and> i < int (length x')) rest"
    using Cons.prems(1) by (simp add: len)
  have "force_failures x (i # rest) = force_failures x' rest"
    using i row by (simp add: np_index_def bind_err_def status_col_def x'_def)
  also have "\<dots> = Inr (forced_features x' rest)"
    using rest rows by (rule Cons.IH)
  also have "forced_features x' rest = forced_features x (i # rest)"
    by (simp add: forced_features_def x'_def)
  finally show ?case .
qed

lemma force_failures_out_of_range:
  assumes "list_ex (\<lambda>i. i < - int (length x) \<or> int (length x) \<le> i) failed"
  shows "force_failures x failed = Inl IndexError"
  using assms
proof (induction failed arbitrary: x)
  case Nil
  then show ?case by simp
next
  case (Cons i rest)
  show ?case
  proof (cases "np_index (length x) i")
    case (Inl e)
    then have "e = IndexError" by (auto simp: np_index_def split: if_splits)
    with Inl show ?thesis by (simp add: bind_err_def)
  next
    case (Inr r)
    then have inr: "- int (length x) \<le> i \<and> i < int (length x)"
      by (auto simp: np_index_def split: if_splits)
    show ?thesis
    proof (cases "np_index (length (x ! r)) status_col")
      case (Inl e)
      then have "e = IndexError" by (auto simp: np_index_def split: if_splits)
      with Inl Inr show ?thesis by (simp add: bind_err_def)
    next
      case c: (Inr c)
      define x' where "x' = x[r := (x ! r)[c := 0.0]]"
      have len: "length x' = length x" by (simp add: x'_def)
      from Cons.prems inr have "list_ex (\<lambda>i. i < - int (length x') \<or> int (length x') \<le> i) rest"
        by (auto simp: len)
      then have "force_failures x' rest = Inl IndexError" by (rule Cons.IH)
      with Inr c show ?thesis by (simp add: bind_err_def x'_def)
    qed
  qed
qed

lemma length_forced_features: "length (forced_features x failed) = length x"
proof -
  have "length (fold (\<lambda>i xs. xs[nat i := (xs ! nat i)[12 := 0]]) failed x) = length x"
    by (induction failed arbitrary: x) simp_all
  then show ?thesis by (simp add: forced_features_def)
qed

lemma length_default_node_names: "length (default_node_names n) = n"
  by (simp add: default_node_names_def)

lemma length_spec_topology_weights: "length (spec_topology_weights es ws n) = n"
  by (simp add: spec_topology_weights_def Let_def)

lemma compute_pessimistic_deltas_ok:
  assumes "length deltas = n" and "length tw = n"
  shows "compute_pessimistic_deltas deltas tw n pess =
           Inr (if pess then map (\<lambda>i. fst (calculate_pessimistic_delta (deltas ! i) (tw ! i))) [0..<n]
                else replicate n 0)"
proof (cases pess)
  case True
  have "sequence_err (map (\<lambda>i.
          bind_err (np_get deltas (int i)) (\<lambda>d.
          bind_err (np_get tw (int i)) (\<lambda>t.
            Inr (fst (calculate_pessimistic_delta d t))))) [0..<n])
        = Inr (map (\<lambda>i. fst (calculate_pessimistic_delta (deltas ! i) (tw ! i))) [0..<n])"
    using assms by (intro sequence_err_map_Inr) (simp add: np_get_nat bind_err_def)
  with True show ?thesis by (simp add: compute_pessimistic_deltas_def)
next
  case False
  then show ?thesis by (simp add: compute_pessimistic_deltas_def)
qed

lemma build_report_ok:
  assumes "length deltas = n" and "length base = n" and "length sim = n" and "length tw = n"
    and "length pd = n" and "length names = n"
  shows "build_report deltas base sim tw pd names failed mode pess n =
           Inr (map (node_entry deltas base sim tw pd names failed mode pess) [0..<n])"
  unfolding build_report_def
  using assms
  by (intro sequence_err_map_Inr) (simp add: np_get_nat bind_err_def node_entry_def)

lemma failed_names_ok:
  assumes "list_all (\<lambda>i. 0 \<le> i \<and> i < int n) failed" and "length names = n"
  shows "sequence_err (map (np_get names) failed) = Inr (map (\<lambda>i. names ! nat i) failed)"
  using assms by (intro sequence_err_map_Inr) (simp add: np_get_valid list_all_iff)

lemma np_mean_nonempty: "vs \<noteq> [] \<Longrightarrow> np_mean vs = Inr (sum_list vs / real (length vs))"
  by (simp add: np_mean_def np_true_divide_def)

lemma set_py_sort_reverse: "set (py_sort_reverse key xs) = set xs"
  by (simp add: py_sort_reverse_def)


lemma interpret_delta_source:
  "interpret_delta d nm True mode tw pess =
     \<lparr>si_delta = d, si_failure_mode = mode, si_risk_type = ''FAILURE_SOURCE'',
      si_risk_level = ''critical'', si_ui_color = ''#000000'', si_confidence = 1,
      si_confidence_label = ''high'', si_pessimistic_delta = 1,
      si_alert_level = ''critical''\<rparr>"
  by (simp add: interpret_delta_def Let_def split: prod.splits)

lemma interpret_delta_amplified:
  "si_pessimistic_delta (interpret_delta d nm False mode tw pess) = fst (calculate_pessimistic_delta d tw) \<and>
   si_alert_level (interpret_delta d nm False mode tw pess) = snd (calculate_pessimistic_delta d tw)"
  by (cases mode)
     (simp_all add: interpret_delta_def Let_def interpret_demand_loss_def interpret_supply_cut_def
        interpret_contamination_def interpret_control_failure_def interpret_raw_delta_def
        split: prod.splits)

text \<open>
  A run on a request of the data model makes both predictor calls and returns a report;
  the lemma spells the report out in terms of its own raw arrays.
\<close>

lemma run_simulation_ok:
  assumes wf: "well_formed_request predict x ei ew failed names"
    and n_def: "n = length x"
    and nm_def: "nm = (case names of None \<Rightarrow> default_node_names n | Some ns \<Rightarrow> ns)"
    and base_def: "base = map (\<lambda>r. r ! 0) (predict x ei ew)"
    and sim_def: "sim = map (\<lambda>r. r ! 0) (predict (forced_features x failed) ei ew)"
    and deltas_def: "deltas = map (\<lambda>(u, v). u - v) (zip sim base)"
    and tw_def: "tw = spec_topology_weights ei ew n"
    and pd_def: "pd = (if pess
                       then map (\<lambda>i. fst (calculate_pessimistic_delta (deltas ! i) (tw ! i))) [0..<n]
                       else replicate n 0)"
    and report_def: "report = py_sort_reverse (\<lambda>r. \<bar>nd_delta r\<bar>)
                       (map (node_entry deltas base sim tw pd nm failed mode pess) [0..<n])"
  shows "run_simulation predict x ei ew failed names mode pess =
    (2, Inr \<lparr>rep_summary =
               \<lparr>sm_total_nodes = n,
                sm_failed_nodes = failed,
                sm_failed_names = map (\<lambda>i. nm ! nat i) failed,
                sm_failure_mode = mode,
                sm_pessimistic_mode = pess,
                sm_affected_count = length (filter (\<lambda>r. \<bar>nd_delta r\<bar> > 0.01) report),
                sm_max_delta = Max (set (map abs deltas)),
                sm_mean_delta = sum_list (map abs deltas) / real n,
                sm_max_pessimistic_delta = (if pess then Some (Max (set pd)) else None),
                sm_interpretation_summary = summarize_interpretations report mode pess\<rparr>,
             rep_nodes = report,
             rep_raw = \<lparr>raw_baseline = base, raw_simulated = sim, raw_deltas = deltas\<rparr>\<rparr>)"
proof -
  from wf have n: "0 < n"
    and rows: "list_all (\<lambda>row. 12 < length row) x"
    and edges: "\<forall>e\<in>set ei. 0 \<le> fst e \<and> fst e < int n \<and> 0 \<le> snd e \<and> snd e < int n"
    and lenw: "length ew = length ei"
    and nonneg: "\<forall>w\<in>set ew. 0 \<le> w"
    and failed: "list_all (\<lambda>i. 0 \<le> i \<and> i < int n) failed"
    and names: "length nm = n"
    and shape1: "shape_ok n (predict x ei ew)"
    and shape2: "shape_ok n (predict (forced_features x failed) ei ew)"
    by (auto simp: well_formed_request_def Let_def n_def nm_def list_all_iff
        length_default_node_names split: option.splits)
  have len_base: "length base = n" and len_sim: "length sim = n"
    using shape1 shape2 by (simp_all add: base_def sim_def shape_ok_def)
  then have len_deltas: "length deltas = n"
    by (simp add: deltas_def)
  have len_tw: "length tw = n"
    by (simp add: tw_def length_spec_topology_weights)
  have len_pd: "length pd = n"
    by (simp add: pd_def)
  note s1 = predict_bind [of n predict x ei ew, OF shape1 n]
  have s1': "np_column0 (predict x ei ew) = Inr base"
    using shape1 by (simp add: base_def shape_ok_def np_column0_ok)
  have s2: "force_failures x failed = Inr (forced_features x failed)"
    using failed rows by (intro force_failures_ok) (simp_all add: n_def)
  note s3 = predict_bind [of n predict "forced_features x failed" ei ew, OF shape2 n]
  have s4: "np_column0 (predict (forced_features x failed) ei ew) = Inr sim"
    using shape2 by (simp add: sim_def shape_ok_def np_column0_ok)
  have s5: "np_subtract sim base = Inr deltas"
    by (simp add: np_subtract_def len_base len_sim deltas_def)
  have s6: "compute_topology_weights ei ew n = Inr tw"
    unfolding tw_def using n edges lenw nonneg by (rule topology_weights_code_eq_spec)
  have s7: "compute_pessimistic_deltas deltas tw n pess = Inr pd"
    unfolding pd_def using len_deltas len_tw by (rule compute_pessimistic_deltas_ok)
  note s8 = build_report_ok [OF len_deltas len_base len_sim len_tw len_pd names, of failed mode pess]
  have s9: "sequence_err (map (np_get nm) failed) = Inr (map (\<lambda>i. nm ! nat i) failed)"
    using failed names by (rule failed_names_ok)
  have ne: "map abs deltas \<noteq> []"
    using n len_deltas by auto
  have s10: "np_max (map abs deltas) = Inr (Max (set (map abs deltas)))"
    using ne by (rule np_max_Max)
  have s11: "np_mean (map abs deltas) = Inr (sum_list (map abs deltas) / real n)"
    using ne len_deltas by (simp add: np_mean_nonempty)
  have pdne: "pd \<noteq> []"
    using n len_pd by auto
  have s12: "(if pess then bind_err (np_max pd) (\<lambda>m. Inr (Some m)) else Inr None)
               = Inr (if pess then Some (Max (set pd)) else None)"
    by (simp add: np_max_Max [OF pdne] bind_err_def)
  show ?thesis
    unfolding run_simulation_def Let_def n_def [symmetric] nm_def [symmetric] s1 s1' s2
    by (simp add: s3 s4 s5 s6 s7 s8 s9 s10 s11 s12 bind_err_Inr report_def [symmetric]
        del: upt.simps)
qed

text \<open>Facts about the report and about the example requests.\<close>

lemma set_report:
  "set (py_sort_reverse key (map f [0..<n])) = f ` {0..<n}"
  by (simp add: set_py_sort_reverse)

lemma node_entry_sel:
  "nd_node_id (node_entry deltas base sim tw pd nm failed mode pess i) = i"
  "nd_delta (node_entry deltas base sim tw pd nm failed mode pess i) = deltas ! i"
  "nd_baseline (node_entry deltas base sim tw pd nm failed mode pess i) = base ! i"
  "nd_simulated (node_entry deltas base sim tw pd nm failed mode pess i) = sim ! i"
  "nd_is_failed_source (node_entry deltas base sim tw pd nm failed mode pess i) = (int i \<in> set failed)"
  "nd_pessimistic_delta (node_entry deltas base sim tw pd nm failed mode pess i) =
     (if pess then Some (pd ! i) else None)"
  "nd_interpretation (node_entry deltas base sim tw pd nm failed mode pess i) =
     interpret_delta (deltas ! i) (nm ! i) (int i \<in> set failed) mode (tw ! i) pess"
  by (simp_all add: node_entry_def)

lemma healthy_node_facts: "length healthy_node = 24" "healthy_node ! 12 = 1" "healthy_node[12 := 0] ! 12 = 0"
  by (simp_all add: healthy_node_def)

lemma shape_ok_status_predictor: "length x = n \<Longrightarrow> shape_ok n (status_predictor x ei ew)"
  by (simp add: shape_ok_def status_predictor_def list_all_iff)

lemma shape_ok_upstream_predictor: "length x = n \<Longrightarrow> shape_ok n (upstream_predictor x ei ew)"
  by (simp add: shape_ok_def upstream_predictor_def list_all_iff)

lemma two_node_request:
  "well_formed_request status_predictor [healthy_node, healthy_node] [(0, 1)] [1] [0] None"
  by (simp add: well_formed_request_def Let_def healthy_node_facts shape_ok_status_predictor
      length_forced_features)

lemma two_node_baseline:
  "map (\<lambda>r. r ! 0) (status_predictor [healthy_node, healthy_node] [(0, 1)] [1]) = [0, 0]"
  by (simp add: status_predictor_def healthy_node_facts)

lemma two_node_simulated:
  "map (\<lambda>r. r ! 0) (status_predictor (forced_features [healthy_node, healthy_node] [0]) [(0, 1)] [1]) = [1, 0]"
  by (simp add: status_predictor_def healthy_node_facts forced_features_def)

lemma star_request:
  "well_formed_request upstream_predictor [healthy_node, healthy_node, healthy_node, healthy_node]
     [(0, 1), (0, 2), (0, 3)] [1, 9/20, 1/4] [0] None"
  by (simp add: well_formed_request_def Let_def healthy_node_facts shape_ok_upstream_predictor
      length_forced_features)

lemma star_baseline:
  "map (\<lambda>r. r ! 0) (upstream_predictor [healthy_node, healthy_node, healthy_node, healthy_node]
     [(0, 1), (0, 2), (0, 3)] [1, 9/20, 1/4]) = [0, 0, 0, 0]"
  by (simp add: upstream_predictor_def healthy_node_facts)

lemma star_simulated:
  "map (\<lambda>r. r ! 0) (upstream_predictor (forced_features [healthy_node, healthy_node, healthy_node, healthy_node] [0])
     [(0, 1), (0, 2), (0, 3)] [1, 9/20, 1/4]) = [1, 1, 1, 1]"
  by (simp add: upstream_predictor_def healthy_node_facts forced_features_def)

lemma star_topology:
  "spec_topology_weights [(0, 1), (0, 2), (0, 3)] [1, 9/20, 1/4] 4 = [1, 10/17, 9/34, 5/34]"
  by (simp add: spec_topology_weights_def spec_raw_weight_def spec_degree_def
        spec_weight_sum_def Let_def upt_rec)

lemma run_counts_one_call:
  assumes "list_ex (\<lambda>i. i < - int (length x) \<or> int (length x) \<le> i) failed"
  shows "(\<exists>e. run_simulation predict x ei ew failed names mode pess = (1, Inl e)) \<and>
         (0 < length x \<and> shape_ok (length x) (predict x ei ew) \<longrightarrow>
            run_simulation predict x ei ew failed names mode pess = (1, Inl IndexError))"
proof -
  have ff: "force_failures x failed = Inl IndexError"
    using assms by (rule force_failures_out_of_range)
  have first: "\<exists>e. run_simulation predict x ei ew failed names mode pess = (1, Inl e)"
    by (cases "bind_err (predict_with_threshold predict x ei ew 0.5)
                 (\<lambda>(probs, alerts, risk). np_column0 probs)")
       (simp_all add: run_simulation_def Let_def ff)
  have second: "run_simulation predict x ei ew failed names mode pess = (1, Inl IndexError)"
    if "0 < length x" and "shape_ok (length x) (predict x ei ew)"
  proof -
    have "np_column0 (predict x ei ew) = Inr (map (\<lambda>r. r ! 0) (predict x ei ew))"
      using that(2) by (simp add: shape_ok_def np_column0_ok)
    then show ?thesis
      unfolding run_simulation_def Let_def predict_bind [of "length x" predict x ei ew, OF that(2) that(1)]
      by (simp add: ff)
  qed
  from first second show ?thesis by blast
qed

lemma two_node_out_of_range_run:
  "run_simulation status_predictor [healthy_node, healthy_node] [(0, 1)] [1] [5] None SUPPLY_CUT False
     = (1, Inl IndexError)"
proof -
  have "shape_ok (length [healthy_node, healthy_node]) (status_predictor [healthy_node, healthy_node] [(0, 1)] [1])"
    by (simp add: shape_ok_status_predictor)
  then show ?thesis
    using run_counts_one_call [of "[healthy_node, healthy_node]" "[5]" status_predictor "[(0, 1)]" "[1]" None SUPPLY_CUT False]
    by simp
qed

lemma two_node_negative_index_run:
  "\<exists>rep. run_simulation status_predictor [healthy_node, healthy_node] [(0, 1)] [1] [-1] None SUPPLY_CUT False
     = (2, Inr rep)"
proof -
  let ?x = "[healthy_node, healthy_node]"
  let ?x' = "[healthy_node, healthy_node[12 := 0]]"
  have two: "0 < (2::nat)" by simp
  have s1: "shape_ok 2 (status_predictor ?x [(0, 1)] [1])"
    by (simp add: shape_ok_status_predictor)
  have s1': "shape_ok 2 (status_predictor ?x' [(0, 1)] [1])"
    by (simp add: shape_ok_status_predictor)
  have ff: "force_failures ?x [-1] = Inr ?x'"
    by (simp add: np_index_def bind_err_def status_col_def healthy_node_facts)
  have col: "np_column0 (status_predictor ?x [(0, 1)] [1]) = Inr [0, 0]"
    by (simp add: np_column0_def status_predictor_def healthy_node_facts)
  have col': "np_column0 (status_predictor ?x' [(0, 1)] [1]) = Inr [0, 1]"
    by (simp add: np_column0_def status_predictor_def healthy_node_facts)
  have sub: "np_subtract [0, 1] [0, 0] = Inr [0, 1]"
    by (simp add: np_subtract_def)
  have tw: "compute_topology_weights [(0, 1)] [1] 2 = Inr (spec_topology_weights [(0, 1)] [1] 2)"
    by (intro topology_weights_code_eq_spec) simp_all
  have len: "length (default_node_names 2) = 2"
    by (rule length_default_node_names)
  have names: "np_get (default_node_names 2) (-1) = Inr (default_node_names 2 ! 1)"
    by (simp add: np_get_def np_index_def bind_err_def len)
  have n2: "length ?x = 2" by simp
  note pb1 = predict_bind [of 2 status_predictor ?x "[(0, 1)]" "[1]", OF s1 two]
  note pb2 = predict_bind [of 2 status_predictor ?x' "[(0, 1)]" "[1]", OF s1' two]
  show ?thesis
    unfolding run_simulation_def Let_def pb1 col ff n2
    apply (simp only: sum.case prod.case pb2 col' bind_err_Inr sub option.case)
    apply (simp add: tw bind_err_Inr compute_pessimistic_deltas_ok build_report_ok
        length_spec_topology_weights len names np_mean_nonempty del: upt.simps)
    done
qed


lemma interpretation_standard_mode:
  assumes wf: "well_formed_request predict x ei ew failed names"
  shows "\<exists>rep. run_simulation predict x ei ew failed names mode False = (2, Inr rep) \<and>
     (\<forall>r\<in>set (rep_nodes rep). nd_pessimistic_delta r = None \<and>
        (\<not> nd_is_failed_source r \<longrightarrow>
           si_pessimistic_delta (nd_interpretation r) =
             fst (calculate_pessimistic_delta (nd_delta r)
                    (spec_topology_weights ei ew (length x) ! nd_node_id r)) \<and>
           si_alert_level (nd_interpretation r) =
             snd (calculate_pessimistic_delta (nd_delta r)
                    (spec_topology_weights ei ew (length x) ! nd_node_id r))))"
proof -
  define n where "n = length x"
  define nm where "nm = (case names of None \<Rightarrow> default_node_names n | Some ns \<Rightarrow> ns)"
  define base where "base = map (\<lambda>r. r ! 0) (predict x ei ew)"
  define sim where "sim = map (\<lambda>r. r ! 0) (predict (forced_features x failed) ei ew)"
  define deltas where "deltas = map (\<lambda>(u, v). u - v) (zip sim base)"
  define tw where "tw = spec_topology_weights ei ew n"
  define pd where "pd = (if False
                       then map (\<lambda>i. fst (calculate_pessimistic_delta (deltas ! i) (tw ! i))) [0..<n]
                       else replicate n 0)"
  define report where "report = py_sort_reverse (\<lambda>r. \<bar>nd_delta r\<bar>)
                       (map (node_entry deltas base sim tw pd nm failed mode False) [0..<n])"
  note run = run_simulation_ok [OF wf n_def nm_def base_def sim_def deltas_def tw_def pd_def report_def]
  have nodes: "set report = node_entry deltas base sim tw pd nm failed mode False ` {0..<n}"
    unfolding report_def by (rule set_report)
  have "nd_pessimistic_delta r = None \<and>
        (\<not> nd_is_failed_source r \<longrightarrow>
           si_pessimistic_delta (nd_interpretation r) =
             fst (calculate_pessimistic_delta (nd_delta r) (tw ! nd_node_id r)) \<and>
           si_alert_level (nd_interpretation r) =
             snd (calculate_pessimistic_delta (nd_delta r) (tw ! nd_node_id r)))"
    if "r \<in> set report" for r
    using that unfolding nodes
    by (auto simp: node_entry_sel interpret_delta_amplified)
  then show ?thesis
    unfolding run tw_def n_def by simp
qed

lemma star_run:
  "\<exists>rep. run_simulation upstream_predictor
            [healthy_node, healthy_node, healthy_node, healthy_node]
            [(0, 1), (0, 2), (0, 3)] [1, 9/20, 1/4] [0] None SUPPLY_CUT False = (2, Inr rep) \<and>
     (\<exists>r\<in>set (rep_nodes rep). nd_node_id r = 1 \<and> \<not> nd_is_failed_source r \<and>
          si_alert_level (nd_interpretation r) = ''critical'') \<and>
     (\<exists>r\<in>set (rep_nodes rep). nd_node_id r = 2 \<and> \<not> nd_is_failed_source r \<and>
          si_alert_level (nd_interpretation r) = ''high'') \<and>
     (\<exists>r\<in>set (rep_nodes rep). nd_node_id r = 3 \<and> \<not> nd_is_failed_source r \<and>
          si_alert_level (nd_interpretation r) = ''elevated'')"
proof -
  let ?x = "[healthy_node, healthy_node, healthy_node, healthy_node]"
  let ?ei = "[(0, 1), (0, 2), (0, 3)] :: (int \<times> int) list"
  let ?ew = "[1, 9/20, 1/4] :: real list"
  define n where "n = length ?x"
  define nm where "nm = (case None :: string list option of None \<Rightarrow> default_node_names n | Some ns \<Rightarrow> ns)"
  define base where "base = map (\<lambda>r. r ! 0) (upstream_predictor ?x ?ei ?ew)"
  define sim where "sim = map (\<lambda>r. r ! 0) (upstream_predictor (forced_features ?x [0]) ?ei ?ew)"
  define deltas where "deltas = map (\<lambda>(u, v). u - v) (zip sim base)"
  define tw where "tw = spec_topology_weights ?ei ?ew n"
  define pd where "pd = (if False
                       then map (\<lambda>i. fst (calculate_pessimistic_delta (deltas ! i) (tw ! i))) [0..<n]
                       else replicate n 0)"
  define report where "report = py_sort_reverse (\<lambda>r. \<bar>nd_delta r\<bar>)
                       (map (node_entry deltas base sim tw pd nm [0] SUPPLY_CUT False) [0..<n])"
  note run = run_simulation_ok [OF star_request n_def nm_def base_def sim_def deltas_def tw_def pd_def report_def]
  have n4: "n = 4" by (simp add: n_def)
  have nodes: "set report = node_entry deltas base sim tw pd nm [0] SUPPLY_CUT False ` {0..<n}"
    unfolding report_def by (rule set_report)
  have deltas: "deltas = [1, 1, 1, 1]"
    by (simp add: deltas_def sim_def base_def star_baseline star_simulated)
  have tw: "tw = [1, 10/17, 9/34, 5/34]"
    by (simp add: tw_def n4 star_topology)
  have mem: "node_entry deltas base sim tw pd nm [0] SUPPLY_CUT False i \<in> set report" if "i < 4" for i
    unfolding nodes using that by (simp add: n4)
  have a1: "si_alert_level (nd_interpretation (node_entry deltas base sim tw pd nm [0] SUPPLY_CUT False 1)) = ''critical''"
    by (simp add: node_entry_sel interpret_delta_amplified deltas tw calculate_pessimistic_delta_def)
  have a2: "si_alert_level (nd_interpretation (node_entry deltas base sim tw pd nm [0] SUPPLY_CUT False 2)) = ''high''"
    by (simp add: node_entry_sel interpret_delta_amplified deltas tw calculate_pessimistic_delta_def)
  have a3: "si_alert_level (nd_interpretation (node_entry deltas base sim tw pd nm [0] SUPPLY_CUT False 3)) = ''elevated''"
    by (simp add: node_entry_sel interpret_delta_amplified deltas tw calculate_pessimistic_delta_def)
  have r1: "\<exists>r\<in>set report. nd_node_id r = 1 \<and> \<not> nd_is_failed_source r \<and>
          si_alert_level (nd_interpretation r) = ''critical''"
    using mem [of 1] a1 by (intro bexI [where x = "node_entry deltas base sim tw pd nm [0] SUPPLY_CUT False 1"])
      (simp_all add: node_entry_sel)
  have r2: "\<exists>r\<in>set report. nd_node_id r = 2 \<and> \<not> nd_is_failed_source r \<and>
          si_alert_level (nd_interpretation r) = ''high''"
    using mem [of 2] a2 by (intro bexI [where x = "node_entry deltas base sim tw pd nm [0] SUPPLY_CUT False 2"])
      (simp_all add: node_entry_sel)
  have r3: "\<exists>r\<in>set report. nd_node_id r = 3 \<and> \<not> nd_is_failed_source r \<and>
          si_alert_level (nd_interpretation r) = ''elevated''"
    using mem [of 3] a3 by (intro bexI [where x = "node_entry deltas base sim tw pd nm [0] SUPPLY_CUT False 3"])
      (simp_all add: node_entry_sel)
  show ?thesis
    unfolding run using r1 r2 r3 by simp
qed








section \<open>Claims about the simulation run\<close>

text \<open>
  Claim C1. For every simulation run on a request of the data model and every node index
  listed in the failed nodes, the report has an entry for that node, and the
  interpretation attached to it is the fixed sentinel: risk type FAILURE_SOURCE, risk
  level critical, confidence exactly 1.0. The interpreter returns the sentinel for a
  source node whatever the delta, also when its magnitude is below 0.01.
\<close>

theorem forced_failure_sentinel:
  assumes "well_formed_request predict x edge_index edge_weight failed_nodes node_names"
  shows "(\<exists>rep. run_simulation predict x edge_index edge_weight failed_nodes node_names
                 failure_mode pessimistic_mode = (2, Inr rep) \<and>
           (\<forall>i\<in>set failed_nodes. \<exists>r\<in>set (rep_nodes rep). int (nd_node_id r) = i) \<and>
           (\<forall>r\<in>set (rep_nodes rep). int (nd_node_id r) \<in> set failed_nodes \<longrightarrow>
              nd_is_failed_source r \<and>
              si_risk_type (nd_interpretation r) = ''FAILURE_SOURCE'' \<and>
              si_risk_level (nd_interpretation r) = ''critical'' \<and>
              si_confidence (nd_interpretation r) = 1)) \<and>
         si_risk_type (interpret_delta delta name True failure_mode topology_weight pessimistic_mode)
           = ''FAILURE_SOURCE'' \<and>
         si_risk_level (interpret_delta delta name True failure_mode topology_weight pessimistic_mode)
           = ''critical'' \<and>
         si_confidence (interpret_delta delta name True failure_mode topology_weight pessimistic_mode)
           = 1"
proof -
  define n where "n = length x"
  define nm where "nm = (case node_names of None \<Rightarrow> default_node_names n | Some ns \<Rightarrow> ns)"
  define base where "base = map (\<lambda>r. r ! 0) (predict x edge_index edge_weight)"
  define sim where "sim = map (\<lambda>r. r ! 0) (predict (forced_features x failed_nodes) edge_index edge_weight)"
  define deltas where "deltas = map (\<lambda>(u, v). u - v) (zip sim base)"
  define tw where "tw = spec_topology_weights edge_index edge_weight n"
  define pd where "pd = (if pessimistic_mode
                       then map (\<lambda>i. fst (calculate_pessimistic_delta (deltas ! i) (tw ! i))) [0..<n]
                       else replicate n 0)"
  define report where "report = py_sort_reverse (\<lambda>r. \<bar>nd_delta r\<bar>)
                       (map (node_entry deltas base sim tw pd nm failed_nodes failure_mode pessimistic_mode) [0..<n])"
  note run = run_simulation_ok [OF assms n_def nm_def base_def sim_def deltas_def tw_def pd_def report_def]
  have nodes: "set report = node_entry deltas base sim tw pd nm failed_nodes failure_mode pessimistic_mode ` {0..<n}"
    unfolding report_def by (rule set_report)
  from assms have valid: "\<forall>i\<in>set failed_nodes. 0 \<le> i \<and> i < int n"
    by (simp add: well_formed_request_def Let_def list_all_iff n_def)
  have present: "\<exists>r\<in>set report. int (nd_node_id r) = i" if "i \<in> set failed_nodes" for i
  proof -
    from that valid have "nat i \<in> {0..<n}" and "int (nat i) = i" by auto
    then show ?thesis
      unfolding nodes by (intro bexI [where x = "node_entry deltas base sim tw pd nm failed_nodes failure_mode pessimistic_mode (nat i)"])
        (simp_all add: node_entry_sel)
  qed
  have sentinel: "nd_is_failed_source r \<and>
              si_risk_type (nd_interpretation r) = ''FAILURE_SOURCE'' \<and>
              si_risk_level (nd_interpretation r) = ''critical'' \<and>
              si_confidence (nd_interpretation r) = 1"
    if "r \<in> set report" and "int (nd_node_id r) \<in> set failed_nodes" for r
    using that unfolding nodes by (auto simp: node_entry_sel interpret_delta_source)
  show ?thesis
    unfolding run using present sentinel by (simp add: interpret_delta_source)
qed

theorem forced_failure_sentinel_witness:
  "\<exists>rep. run_simulation status_predictor [healthy_node, healthy_node] [(0, 1)] [1] [0] None
            SUPPLY_CUT True = (2, Inr rep) \<and>
     (\<exists>r\<in>set (rep_nodes rep). nd_node_id r = 0 \<and>
        si_risk_type (nd_interpretation r) = ''FAILURE_SOURCE'' \<and>
        si_risk_level (nd_interpretation r) = ''critical'' \<and>
        si_confidence (nd_interpretation r) = 1) \<and>
     si_confidence (interpret_delta 0 ''Tank'' True SUPPLY_CUT 1 True) = 1"
  using forced_failure_sentinel [OF two_node_request, of SUPPLY_CUT True 0 "''Tank''" 1]
  by fastforce




text \<open>
  Claim C3, as amended. For every call of the simulation in which some index of the
  failed nodes lies outside \<open>[-N, N)\<close>, the call fails and returns no report after
  exactly one call of the predictor, the baseline one; the counterfactual call is not
  made. When the baseline call answered with one non-empty row per node, the failure is
  the \<^verbatim>\<open>IndexError\<close> of the write of the failed status.
\<close>

theorem out_of_range_index_fails_after_baseline:
  assumes "list_ex (\<lambda>i. i < - int (length x) \<or> int (length x) \<le> i) failed_nodes"
  shows "(\<exists>e. run_simulation predict x edge_index edge_weight failed_nodes node_names
                failure_mode pessimistic_mode = (1, Inl e)) \<and>
         (0 < length x \<and> shape_ok (length x) (predict x edge_index edge_weight) \<longrightarrow>
            run_simulation predict x edge_index edge_weight failed_nodes node_names
              failure_mode pessimistic_mode = (1, Inl IndexError))"
  using assms by (rule run_counts_one_call)

theorem out_of_range_index_fails_after_baseline_witness:
  "run_simulation status_predictor [healthy_node, healthy_node] [(0, 1)] [1] [0, 2] None
     CONTAMINATION True = (1, Inl IndexError)"
proof -
  have "shape_ok (length [healthy_node, healthy_node])
          (status_predictor [healthy_node, healthy_node] [(0, 1)] [1])"
    by (simp add: shape_ok_status_predictor)
  then show ?thesis
    using out_of_range_index_fails_after_baseline
      [of "[healthy_node, healthy_node]" "[0, 2]" status_predictor "[(0, 1)]" "[1]" None
          CONTAMINATION True]
    by simp
qed

theorem invalid_argument_counterexample:
  "run_simulation status_predictor [healthy_node, healthy_node] [(0, 1)] [1] [5] None
     SUPPLY_CUT False = (1, Inl IndexError) \<and>
   (\<exists>rep. run_simulation status_predictor [healthy_node, healthy_node] [(0, 1)] [1] [-1] None
            SUPPLY_CUT False = (2, Inr rep))"
  using two_node_out_of_range_run two_node_negative_index_run by simp

text \<open>
  Claim C10. For every simulation run in standard mode (pessimistic mode off) on a
  request of the data model, the top-level amplified delta of every node of the report
  is absent, yet the interpretation of every node that is not a forced-failure source
  carries the amplified delta and the alert level that the amplification formula gives
  for the node's delta and topology weight. So a standard-mode report can contain
  interpretations with alert level elevated, high or critical: the run on the star of
  four nodes below contains all three.
\<close>

theorem standard_mode_alert_levels:
  "(well_formed_request predict x edge_index edge_weight failed_nodes node_names \<longrightarrow>
      (\<exists>rep. run_simulation predict x edge_index edge_weight failed_nodes node_names
                failure_mode False = (2, Inr rep) \<and>
         (\<forall>r\<in>set (rep_nodes rep). nd_pessimistic_delta r = None \<and>
            (\<not> nd_is_failed_source r \<longrightarrow>
               si_pessimistic_delta (nd_interpretation r) =
                 fst (calculate_pessimistic_delta (nd_delta r)
                        (spec_topology_weights edge_index edge_weight (length x) ! nd_node_id r)) \<and>
               si_alert_level (nd_interpretation r) =
                 snd (calculate_pessimistic_delta (nd_delta r)
                        (spec_topology_weights edge_index edge_weight (length x) ! nd_node_id r)))))) \<and>
   (\<exists>rep. run_simulation upstream_predictor
            [healthy_node, healthy_node, healthy_node, healthy_node]
            [(0, 1), (0, 2), (0, 3)] [1, 9/20, 1/4] [0] None SUPPLY_CUT False = (2, Inr rep) \<and>
     (\<exists>r\<in>set (rep_nodes rep). nd_node_id r = 1 \<and> \<not> nd_is_failed_source r \<and>
          si_alert_level (nd_interpretation r) = ''critical'') \<and>
     (\<exists>r\<in>set (rep_nodes rep). nd_node_id r = 2 \<and> \<not> nd_is_failed_source r \<and>
          si_alert_level (nd_interpretation r) = ''high'') \<and>
     (\<exists>r\<in>set (rep_nodes rep). nd_node_id r = 3 \<and> \<not> nd_is_failed_source r \<and>
          si_alert_level (nd_interpretation r) = ''elevated''))"
  using interpretation_standard_mode [of predict x edge_index edge_weight failed_nodes node_names failure_mode]
    star_run
  by blast

theorem standard_mode_alert_levels_witness:
  "\<exists>rep. run_simulation upstream_predictor
            [healthy_node, healthy_node, healthy_node, healthy_node]
            [(0, 1), (0, 2), (0, 3)] [1, 9/20, 1/4] [0] None SUPPLY_CUT False = (2, Inr rep) \<and>
     (\<exists>r\<in>set (rep_nodes rep). nd_node_id r = 1 \<and> \<not> nd_is_failed_source r \<and>
          nd_pessimistic_delta r = None \<and>
          si_alert_level (nd_interpretation r) = ''critical'')"
proof -
  note inst = standard_mode_alert_levels
    [of upstream_predictor "[healthy_node, healthy_node, healthy_node, healthy_node]"
        "[(0, 1), (0, 2), (0, 3)]" "[1, 9/20, 1/4]" "[0]" None SUPPLY_CUT]
  from inst star_request obtain rep where
    run: "run_simulation upstream_predictor
            [healthy_node, healthy_node, healthy_node, healthy_node]
            [(0, 1), (0, 2), (0, 3)] [1, 9/20, 1/4] [0] None SUPPLY_CUT False = (2, Inr rep)"
    and all: "\<forall>r\<in>set (rep_nodes rep). nd_pessimistic_delta r = None"
    by blast
  from inst run obtain r where "r \<in> set (rep_nodes rep)" "nd_node_id r = 1"
    "\<not> nd_is_failed_source r" "si_alert_level (nd_interpretation r) = ''critical''"
    by auto
  with all run show ?thesis by auto
qed

section \<open>Properties of the causal attribution analyses\<close>

lemma bind_err_eq_Inr: "bind_err m f = Inr y \<longleftrightarrow> (\<exists>v. m = Inr v \<and> f v = Inr y)"
  by (cases m) (simp_all add: bind_err_def)

lemma sequence_err_Inr: "sequence_err rs = Inr ys \<Longrightarrow> rs = map Inr ys"
proof (induction rs arbitrary: ys)
  case Nil
  then show ?case by simp
next
  case (Cons r rs)
  then show ?case
    by (cases r; cases "sequence_err rs") auto
qed

lemma sequence_err_map_results:
  assumes "sequence_err (map f xs) = Inr ys"
  shows "length ys = length xs" and "\<forall>y\<in>set ys. \<exists>x\<in>set xs. f x = Inr y"
proof -
  from assms have eq: "map f xs = map Inr ys" by (rule sequence_err_Inr)
  then show "length ys = length xs"
    by (metis length_map)
  show "\<forall>y\<in>set ys. \<exists>x\<in>set xs. f x = Inr y"
  proof
    fix y assume "y \<in> set ys"
    then have "Inr y \<in> set (map f xs)" unfolding eq by simp
    then show "\<exists>x\<in>set xs. f x = Inr y" by auto
  qed
qed

lemma sorted_wrt_py_sort_reverse:
  "sorted_wrt (\<lambda>a b. key a \<ge> key b) (py_sort_reverse key xs)"
proof -
  have "sorted (map key (sort_key key (rev xs)))"
    by (rule sorted_sort_key)
  then have "sorted_wrt (\<lambda>a b. key a \<le> key b) (sort_key key (rev xs))"
    by (simp add: sorted_map)
  then show ?thesis
    by (simp add: py_sort_reverse_def sorted_wrt_rev)
qed

lemma sorted_wrt_sort_key: "sorted_wrt (\<lambda>a b. key a \<le> key b) (sort_key key xs)"
  using sorted_sort_key [of key xs] by (simp add: sorted_map)

lemma length_py_sort_reverse: "length (py_sort_reverse key xs) = length xs"
  by (simp add: py_sort_reverse_def)

lemma length_filter_indices:
  "length (filter (\<lambda>i. P (xs ! i)) [0..<length xs]) = length (filter P xs)"
proof -
  have "filter P xs = filter P (map ((!) xs) [0..<length xs])"
    by (simp add: map_nth)
  also have "\<dots> = map ((!) xs) (filter (\<lambda>i. P (xs ! i)) [0..<length xs])"
    by (simp add: filter_map comp_def)
  finally show ?thesis by simp
qed

lemma target_impact_mean:
  "target_impact pred t = Inr v \<longleftrightarrow>
     (\<exists>row. np_get pred t = Inr row \<and> row \<noteq> [] \<and> v = sum_list row / real (length row))"
  by (auto simp: target_impact_def bind_err_eq_Inr np_mean_def np_true_divide_def split: if_splits)

lemma perturb_neighbor_result:
  assumes "perturb_neighbor predict x ei ea t b nb = Inr r"
  shows "pr_neighbor_idx r = nb \<and> pr_baseline_impact r = b \<and>
         pr_causal_effect r = pr_perturbed_impact r - pr_baseline_impact r \<and>
         (\<exists>xp. perturb_features x nb = Inr xp \<and>
               target_impact (predict xp ei ea) t = Inr (pr_perturbed_impact r))"
  using assms by (auto simp: perturb_neighbor_def bind_err_eq_Inr Let_def)

lemma occlude_edge_result:
  assumes "occlude_edge predict x ei ea t b k = Inr r"
  shows "oc_edge_idx r = k \<and> oc_baseline_impact r = b \<and>
         oc_causal_effect r = oc_occluded_impact r - oc_baseline_impact r \<and>
         target_impact (predict x (mask_out ei k) (mask_out ea k)) t = Inr (oc_occluded_impact r)"
  using assms by (auto simp: occlude_edge_def bind_err_eq_Inr Let_def split: if_splits)

lemma node_perturbation_results:
  assumes "node_perturbation_analysis predict x ei ea t = Inr results"
  shows "\<exists>b rs. target_impact (predict x ei ea) t = Inr b \<and>
           results = py_sort_reverse (\<lambda>r. \<bar>pr_causal_effect r\<bar>) rs \<and>
           length rs = length (remdups (map fst (filter (\<lambda>e. snd e = t) ei))) \<and>
           (\<forall>r\<in>set rs. \<exists>nb. perturb_neighbor predict x ei ea t b nb = Inr r)"
proof -
  from assms obtain b where b: "target_impact (predict x ei ea) t = Inr b"
    and rest: "(let neighbors = remdups (map fst (filter (\<lambda>e. snd e = t) ei)) in
        if length neighbors = 0 then Inr []
        else bind_err (sequence_err (map (perturb_neighbor predict x ei ea t b) neighbors))
               (\<lambda>results. Inr (py_sort_reverse (\<lambda>r. \<bar>pr_causal_effect r\<bar>) results))) = Inr results"
    by (auto simp: node_perturbation_analysis_def Let_def bind_err_eq_Inr)
  define nbs where "nbs = remdups (map fst (filter (\<lambda>e. snd e = t) ei))"
  show ?thesis
  proof (cases "length nbs = 0")
    case True
    with rest have "results = []" by (simp add: nbs_def [symmetric] Let_def)
    with b True show ?thesis
      by (intro exI [where x = b] exI [where x = "[]"]) (simp add: py_sort_reverse_def nbs_def)
  next
    case False
    with rest obtain rs where seq: "sequence_err (map (perturb_neighbor predict x ei ea t b) nbs) = Inr rs"
      and res: "results = py_sort_reverse (\<lambda>r. \<bar>pr_causal_effect r\<bar>) rs"
      by (auto simp: nbs_def [symmetric] Let_def bind_err_eq_Inr)
    from sequence_err_map_results [OF seq] b res show ?thesis
      unfolding nbs_def by blast
  qed
qed

lemma edge_occlusion_results:
  assumes "edge_occlusion_analysis predict x ei ea t = Inr results"
  shows "\<exists>b rs. target_impact (predict x ei ea) t = Inr b \<and>
           results = sort_key oc_causal_effect rs \<and>
           length rs = length (filter (\<lambda>e. snd e = t) ei) \<and>
           (\<forall>r\<in>set rs. \<exists>k. occlude_edge predict x ei ea t b k = Inr r)"
proof -
  define inc where "inc = filter (\<lambda>i. snd (ei ! i) = t) [0..<length ei]"
  have len_inc: "length inc = length (filter (\<lambda>e. snd e = t) ei)"
    unfolding inc_def by (rule length_filter_indices)
  from assms obtain b where b: "target_impact (predict x ei ea) t = Inr b"
    and rest: "(if inc = [] then Inr []
        else bind_err (sequence_err (map (occlude_edge predict x ei ea t b) inc))
               (\<lambda>results. Inr (sort_key oc_causal_effect results))) = Inr results"
    unfolding inc_def
    by (auto simp: edge_occlusion_analysis_def Let_def bind_err_eq_Inr)
  show ?thesis
  proof (cases "length inc = 0")
    case True
    with rest have "results = []" by simp
    with b True len_inc show ?thesis
      by (intro exI [where x = b] exI [where x = "[]"]) simp
  next
    case False
    with rest obtain rs where seq: "sequence_err (map (occlude_edge predict x ei ea t b) inc) = Inr rs"
      and res: "results = sort_key oc_causal_effect rs"
      by (auto simp: bind_err_eq_Inr)
    from sequence_err_map_results [OF seq] b res len_inc show ?thesis
      by (intro exI [where x = b] exI [where x = rs]) auto
  qed
qed

lemma healthy_type: "node_type_of [healthy_node, healthy_node, healthy_node] i = Inr ''Tank''"
  if "i = 0 \<or> i = 1" for i
  using that
  by (auto simp: node_type_of_def np_get_def np_index_def bind_err_def healthy_node_def
      np_argmax_def type_names_def)

lemma upd15: "healthy_node[15 := v] ! 15 = v" "length (healthy_node[15 := v]) = 24"
  "length (healthy_node[15 := a, 13 := b, 14 := c]) = 24"
  "healthy_node[15 := a, 13 := b, 14 := c] ! 15 = a"
  "healthy_node ! 15 = 9/10"
  by (simp_all add: healthy_node_def)

lemma perturb0:
  "perturb_features [healthy_node, healthy_node, healthy_node] 0 =
     Inr [healthy_node[15 := 0, 13 := 0, 14 := 0], healthy_node, healthy_node]"
  by (simp add: perturb_features_def np_set2_def np_index_def bind_err_def healthy_node_facts)

lemma perturb1:
  "perturb_features [healthy_node, healthy_node, healthy_node] 1 =
     Inr [healthy_node, healthy_node[15 := 0, 13 := 0, 14 := 0], healthy_node]"
  by (simp add: perturb_features_def np_set2_def np_index_def bind_err_def healthy_node_facts)

lemma impact_example:
  "length x = 3 \<Longrightarrow> target_impact (mixing_predictor x ei ew) 2 =
     Inr ((1 - (x ! 0) ! 15 / 2 - (x ! 1) ! 15 / 4 + sum_list ew / 4) / 2)"
  by (simp add: target_impact_def np_get_def np_index_def bind_err_def mixing_predictor_def
      np_mean_def np_true_divide_def)

lemma example_perturbation:
  "node_perturbation_analysis mixing_predictor [healthy_node, healthy_node, healthy_node]
     [(0, 2), (1, 2)] [1/2, 1] 2 =
   Inr [\<lparr>pr_neighbor_idx = 0, pr_node_type = ''Tank'', pr_baseline_impact = 7/20,
          pr_perturbed_impact = 23/40, pr_causal_effect = 9/40\<rparr>,
        \<lparr>pr_neighbor_idx = 1, pr_node_type = ''Tank'', pr_baseline_impact = 7/20,
          pr_perturbed_impact = 37/80, pr_causal_effect = 9/80\<rparr>]"
  by (simp add: node_perturbation_analysis_def perturb_neighbor_def Let_def impact_example
      bind_err_Inr perturb0 perturb1 healthy_type upd15 py_sort_reverse_def)

lemma example_occlusion:
  "edge_occlusion_analysis mixing_predictor [healthy_node, healthy_node, healthy_node]
     [(0, 2), (1, 2)] [1/2, 1] 2 =
   Inr [\<lparr>oc_edge_idx = 1, oc_source_idx = 1, oc_source_type = ''Tank'', oc_edge_weight = 1,
          oc_baseline_impact = 7/20, oc_occluded_impact = 9/40, oc_causal_effect = - (1/8)\<rparr>,
        \<lparr>oc_edge_idx = 0, oc_source_idx = 0, oc_source_type = ''Tank'', oc_edge_weight = 1/2,
          oc_baseline_impact = 7/20, oc_occluded_impact = 23/80, oc_causal_effect = - (1/16)\<rparr>]"
  by (simp add: edge_occlusion_analysis_def occlude_edge_def Let_def impact_example
      bind_err_Inr healthy_type upd15 mask_out_def np_get_def np_index_def upt_rec)

lemma example_baseline_row:
  "mixing_predictor [healthy_node, healthy_node, healthy_node] [(0, 2), (1, 2)] [1/2, 1] ! 2
     = [13/40, 3/8]"
  by (simp add: mixing_predictor_def upd15)

lemma counterfactual_results:
  assumes "counterfactual_analysis predict x ei ea t f = Inr c"
  shows "\<exists>xr. target_impact (predict x ei ea) t = Inr (cf_current_impact c) \<and>
           repair_features x f = Inr xr \<and>
           target_impact (predict xr ei ea) t = Inr (cf_repaired_impact c) \<and>
           cf_benefit c = cf_current_impact c - cf_repaired_impact c"
  using assms by (auto simp: counterfactual_analysis_def bind_err_eq_Inr Let_def)

lemma simulation_uses_dimension_0:
  assumes wf: "well_formed_request predict x ei ew failed names"
  shows "\<exists>rep. run_simulation predict x ei ew failed names mode pess = (2, Inr rep) \<and>
     raw_baseline (rep_raw rep) = map (\<lambda>row. row ! 0) (predict x ei ew) \<and>
     raw_simulated (rep_raw rep) =
       map (\<lambda>row. row ! 0) (predict (forced_features x failed) ei ew) \<and>
     (\<forall>r\<in>set (rep_nodes rep).
        nd_baseline r = predict x ei ew ! nd_node_id r ! 0 \<and>
        nd_simulated r = predict (forced_features x failed) ei ew ! nd_node_id r ! 0 \<and>
        nd_delta r = nd_simulated r - nd_baseline r)"
proof -
  define n where "n = length x"
  define nm where "nm = (case names of None \<Rightarrow> default_node_names n | Some ns \<Rightarrow> ns)"
  define base where "base = map (\<lambda>r. r ! 0) (predict x ei ew)"
  define sim where "sim = map (\<lambda>r. r ! 0) (predict (forced_features x failed) ei ew)"
  define deltas where "deltas = map (\<lambda>(u, v). u - v) (zip sim base)"
  define tw where "tw = spec_topology_weights ei ew n"
  define pd where "pd = (if pess
                       then map (\<lambda>i. fst (calculate_pessimistic_delta (deltas ! i) (tw ! i))) [0..<n]
                       else replicate n 0)"
  define report where "report = py_sort_reverse (\<lambda>r. \<bar>nd_delta r\<bar>)
                       (map (node_entry deltas base sim tw pd nm failed mode pess) [0..<n])"
  note run = run_simulation_ok [OF wf n_def nm_def base_def sim_def deltas_def tw_def pd_def report_def]
  from wf have lb: "length (predict x ei ew) = n"
    and ls: "length (predict (forced_features x failed) ei ew) = n"
    by (simp_all add: well_formed_request_def Let_def shape_ok_def n_def)
  have nodes: "set report = node_entry deltas base sim tw pd nm failed mode pess ` {0..<n}"
    unfolding report_def by (rule set_report)
  have "nd_baseline r = predict x ei ew ! nd_node_id r ! 0 \<and>
        nd_simulated r = predict (forced_features x failed) ei ew ! nd_node_id r ! 0 \<and>
        nd_delta r = nd_simulated r - nd_baseline r"
    if "r \<in> set report" for r
    using that lb ls unfolding nodes
    by (auto simp: node_entry_sel base_def sim_def deltas_def)
  then show ?thesis
    unfolding run by (simp add: base_def sim_def)
qed

section \<open>Claims about the causal attribution analyses\<close>

text \<open>
  Claim C9. The list that the node-perturbation analysis returns is sorted by descending
  absolute causal effect, the effect of an entry being its perturbed target impact minus
  its baseline target impact; the list that the edge-occlusion analysis returns is
  sorted by ascending signed causal effect, the most negative first. The lists have one
  entry per distinct upstream neighbor and per incoming edge of the target, so they are
  not empty for a target with at least one of them.
\<close>

theorem causal_rankings_sorted:
  "(node_perturbation_analysis predict x edge_index edge_attr target_node_idx = Inr results \<longrightarrow>
      sorted_wrt (\<lambda>a b. \<bar>pr_causal_effect a\<bar> \<ge> \<bar>pr_causal_effect b\<bar>) results \<and>
      (\<forall>r\<in>set results. pr_causal_effect r = pr_perturbed_impact r - pr_baseline_impact r) \<and>
      length results =
        length (remdups (map fst (filter (\<lambda>e. snd e = target_node_idx) edge_index)))) \<and>
   (edge_occlusion_analysis predict x edge_index edge_attr target_node_idx = Inr edge_results \<longrightarrow>
      sorted_wrt (\<lambda>a b. oc_causal_effect a \<le> oc_causal_effect b) edge_results \<and>
      (\<forall>r\<in>set edge_results. oc_causal_effect r = oc_occluded_impact r - oc_baseline_impact r) \<and>
      length edge_results = length (filter (\<lambda>e. snd e = target_node_idx) edge_index))"
proof (intro conjI impI)
  assume "node_perturbation_analysis predict x edge_index edge_attr target_node_idx = Inr results"
  from node_perturbation_results [OF this] obtain b rs where
    res: "results = py_sort_reverse (\<lambda>r. \<bar>pr_causal_effect r\<bar>) rs"
    and len: "length rs = length (remdups (map fst (filter (\<lambda>e. snd e = target_node_idx) edge_index)))"
    and each: "\<forall>r\<in>set rs. \<exists>nb. perturb_neighbor predict x edge_index edge_attr target_node_idx b nb = Inr r"
    by blast
  show "sorted_wrt (\<lambda>a b. \<bar>pr_causal_effect a\<bar> \<ge> \<bar>pr_causal_effect b\<bar>) results"
    unfolding res by (rule sorted_wrt_py_sort_reverse)
  show "\<forall>r\<in>set results. pr_causal_effect r = pr_perturbed_impact r - pr_baseline_impact r"
    unfolding res set_py_sort_reverse using each perturb_neighbor_result by blast
  show "length results =
          length (remdups (map fst (filter (\<lambda>e. snd e = target_node_idx) edge_index)))"
    unfolding res using len by (simp add: length_py_sort_reverse)
next
  assume "edge_occlusion_analysis predict x edge_index edge_attr target_node_idx = Inr edge_results"
  from edge_occlusion_results [OF this] obtain b rs where
    res: "edge_results = sort_key oc_causal_effect rs"
    and len: "length rs = length (filter (\<lambda>e. snd e = target_node_idx) edge_index)"
    and each: "\<forall>r\<in>set rs. \<exists>k. occlude_edge predict x edge_index edge_attr target_node_idx b k = Inr r"
    by blast
  show "sorted_wrt (\<lambda>a b. oc_causal_effect a \<le> oc_causal_effect b) edge_results"
    unfolding res by (rule sorted_wrt_sort_key)
  show "\<forall>r\<in>set edge_results. oc_causal_effect r = oc_occluded_impact r - oc_baseline_impact r"
    unfolding res using each occlude_edge_result by (simp add: Ball_def) blast
  show "length edge_results = length (filter (\<lambda>e. snd e = target_node_idx) edge_index)"
    unfolding res using len by simp
qed

theorem causal_rankings_sorted_witness:
  "node_perturbation_analysis mixing_predictor [healthy_node, healthy_node, healthy_node]
     [(0, 2), (1, 2)] [1/2, 1] 2 =
   Inr [\<lparr>pr_neighbor_idx = 0, pr_node_type = ''Tank'', pr_baseline_impact = 7/20,
          pr_perturbed_impact = 23/40, pr_causal_effect = 9/40\<rparr>,
        \<lparr>pr_neighbor_idx = 1, pr_node_type = ''Tank'', pr_baseline_impact = 7/20,
          pr_perturbed_impact = 37/80, pr_causal_effect = 9/80\<rparr>] \<and>
   sorted_wrt (\<lambda>a b. \<bar>pr_causal_effect a\<bar> \<ge> \<bar>pr_causal_effect b\<bar>)
     [\<lparr>pr_neighbor_idx = 0, pr_node_type = ''Tank'', pr_baseline_impact = 7/20,
          pr_perturbed_impact = 23/40, pr_causal_effect = 9/40\<rparr>,
      \<lparr>pr_neighbor_idx = 1, pr_node_type = ''Tank'', pr_baseline_impact = 7/20,
          pr_perturbed_impact = 37/80, pr_causal_effect = 9/80\<rparr>] \<and>
   edge_occlusion_analysis mixing_predictor [healthy_node, healthy_node, healthy_node]
     [(0, 2), (1, 2)] [1/2, 1] 2 =
   Inr [\<lparr>oc_edge_idx = 1, oc_source_idx = 1, oc_source_type = ''Tank'', oc_edge_weight = 1,
          oc_baseline_impact = 7/20, oc_occluded_impact = 9/40, oc_causal_effect = - (1/8)\<rparr>,
        \<lparr>oc_edge_idx = 0, oc_source_idx = 0, oc_source_type = ''Tank'', oc_edge_weight = 1/2,
          oc_baseline_impact = 7/20, oc_occluded_impact = 23/80, oc_causal_effect = - (1/16)\<rparr>] \<and>
   sorted_wrt (\<lambda>a b. oc_causal_effect a \<le> oc_causal_effect b)
     [\<lparr>oc_edge_idx = 1, oc_source_idx = 1, oc_source_type = ''Tank'', oc_edge_weight = 1,
          oc_baseline_impact = 7/20, oc_occluded_impact = 9/40, oc_causal_effect = - (1/8)\<rparr>,
      \<lparr>oc_edge_idx = 0, oc_source_idx = 0, oc_source_type = ''Tank'', oc_edge_weight = 1/2,
          oc_baseline_impact = 7/20, oc_occluded_impact = 23/80, oc_causal_effect = - (1/16)\<rparr>]"
proof -
  let ?rs = "[\<lparr>pr_neighbor_idx = 0, pr_node_type = ''Tank'', pr_baseline_impact = 7/20,
          pr_perturbed_impact = 23/40, pr_causal_effect = 9/40\<rparr>,
        \<lparr>pr_neighbor_idx = 1, pr_node_type = ''Tank'', pr_baseline_impact = 7/20,
          pr_perturbed_impact = 37/80, pr_causal_effect = 9/80\<rparr>]"
  let ?es = "[\<lparr>oc_edge_idx = 1, oc_source_idx = 1, oc_source_type = ''Tank'', oc_edge_weight = 1,
          oc_baseline_impact = 7/20, oc_occluded_impact = 9/40, oc_causal_effect = - (1/8)\<rparr>,
        \<lparr>oc_edge_idx = 0, oc_source_idx = 0, oc_source_type = ''Tank'', oc_edge_weight = 1/2,
          oc_baseline_impact = 7/20, oc_occluded_impact = 23/80, oc_causal_effect = - (1/16)\<rparr>]"
  from causal_rankings_sorted [of mixing_predictor "[healthy_node, healthy_node, healthy_node]"
      "[(0, 2), (1, 2)]" "[1/2, 1]" 2 ?rs ?es] example_perturbation example_occlusion
  have "sorted_wrt (\<lambda>a b. \<bar>pr_causal_effect a\<bar> \<ge> \<bar>pr_causal_effect b\<bar>) ?rs"
    and "sorted_wrt (\<lambda>a b. oc_causal_effect a \<le> oc_causal_effect b) ?es"
    by blast+
  with example_perturbation example_occlusion show ?thesis
    by blast
qed

text \<open>
  Claim C4, as amended. The baseline and counterfactual values of the simulation run are
  dimension 0 of the predictor's output, per node. The target impacts of the three
  causal analyses are not: the baseline, perturbed, occluded, current and repaired
  impacts are each the arithmetic mean of the target node's row over all of its output
  dimensions.
\<close>

theorem impact_dimensions:
  "(well_formed_request predict x edge_index edge_weight failed_nodes node_names \<longrightarrow>
      (\<exists>rep. run_simulation predict x edge_index edge_weight failed_nodes node_names
                failure_mode pessimistic_mode = (2, Inr rep) \<and>
         raw_baseline (rep_raw rep) = map (\<lambda>row. row ! 0) (predict x edge_index edge_weight) \<and>
         raw_simulated (rep_raw rep) =
           map (\<lambda>row. row ! 0) (predict (forced_features x failed_nodes) edge_index edge_weight) \<and>
         (\<forall>r\<in>set (rep_nodes rep).
            nd_baseline r = predict x edge_index edge_weight ! nd_node_id r ! 0 \<and>
            nd_simulated r =
              predict (forced_features x failed_nodes) edge_index edge_weight ! nd_node_id r ! 0 \<and>
            nd_delta r = nd_simulated r - nd_baseline r))) \<and>
   (node_perturbation_analysis predict x edge_index edge_weight target_node_idx = Inr results \<longrightarrow>
      (\<forall>r\<in>set results. \<exists>row x_perturbed row'.
         np_get (predict x edge_index edge_weight) target_node_idx = Inr row \<and> row \<noteq> [] \<and>
         pr_baseline_impact r = sum_list row / real (length row) \<and>
         perturb_features x (pr_neighbor_idx r) = Inr x_perturbed \<and>
         np_get (predict x_perturbed edge_index edge_weight) target_node_idx = Inr row' \<and>
         row' \<noteq> [] \<and>
         pr_perturbed_impact r = sum_list row' / real (length row'))) \<and>
   (edge_occlusion_analysis predict x edge_index edge_weight target_node_idx = Inr edge_results \<longrightarrow>
      (\<forall>r\<in>set edge_results. \<exists>row row'.
         np_get (predict x edge_index edge_weight) target_node_idx = Inr row \<and> row \<noteq> [] \<and>
         oc_baseline_impact r = sum_list row / real (length row) \<and>
         np_get (predict x (mask_out edge_index (oc_edge_idx r))
                   (mask_out edge_weight (oc_edge_idx r))) target_node_idx = Inr row' \<and>
         row' \<noteq> [] \<and>
         oc_occluded_impact r = sum_list row' / real (length row'))) \<and>
   (counterfactual_analysis predict x edge_index edge_weight target_node_idx failed_node_idx
        = Inr repair \<longrightarrow>
      (\<exists>row x_repaired row'.
         np_get (predict x edge_index edge_weight) target_node_idx = Inr row \<and> row \<noteq> [] \<and>
         cf_current_impact repair = sum_list row / real (length row) \<and>
         repair_features x failed_node_idx = Inr x_repaired \<and>
         np_get (predict x_repaired edge_index edge_weight) target_node_idx = Inr row' \<and>
         row' \<noteq> [] \<and>
         cf_repaired_impact repair = sum_list row' / real (length row')))"
proof (intro conjI impI)
  assume "well_formed_request predict x edge_index edge_weight failed_nodes node_names"
  then show "\<exists>rep. run_simulation predict x edge_index edge_weight failed_nodes node_names
                failure_mode pessimistic_mode = (2, Inr rep) \<and>
         raw_baseline (rep_raw rep) = map (\<lambda>row. row ! 0) (predict x edge_index edge_weight) \<and>
         raw_simulated (rep_raw rep) =
           map (\<lambda>row. row ! 0) (predict (forced_features x failed_nodes) edge_index edge_weight) \<and>
         (\<forall>r\<in>set (rep_nodes rep).
            nd_baseline r = predict x edge_index edge_weight ! nd_node_id r ! 0 \<and>
            nd_simulated r =
              predict (forced_features x failed_nodes) edge_index edge_weight ! nd_node_id r ! 0 \<and>
            nd_delta r = nd_simulated r - nd_baseline r)"
    by (rule simulation_uses_dimension_0)
next
  assume "node_perturbation_analysis predict x edge_index edge_weight target_node_idx = Inr results"
  from node_perturbation_results [OF this] obtain b rs where
    b: "target_impact (predict x edge_index edge_weight) target_node_idx = Inr b"
    and res: "results = py_sort_reverse (\<lambda>r. \<bar>pr_causal_effect r\<bar>) rs"
    and each: "\<forall>r\<in>set rs. \<exists>nb. perturb_neighbor predict x edge_index edge_weight target_node_idx b nb = Inr r"
    by blast
  from b obtain row where row: "np_get (predict x edge_index edge_weight) target_node_idx = Inr row"
    "row \<noteq> []" "b = sum_list row / real (length row)"
    unfolding target_impact_mean by blast
  show "\<forall>r\<in>set results. \<exists>row x_perturbed row'.
         np_get (predict x edge_index edge_weight) target_node_idx = Inr row \<and> row \<noteq> [] \<and>
         pr_baseline_impact r = sum_list row / real (length row) \<and>
         perturb_features x (pr_neighbor_idx r) = Inr x_perturbed \<and>
         np_get (predict x_perturbed edge_index edge_weight) target_node_idx = Inr row' \<and>
         row' \<noteq> [] \<and>
         pr_perturbed_impact r = sum_list row' / real (length row')"
  proof
    fix r assume "r \<in> set results"
    with res each obtain nb where
      "perturb_neighbor predict x edge_index edge_weight target_node_idx b nb = Inr r"
      by (auto simp: set_py_sort_reverse)
    from perturb_neighbor_result [OF this] obtain xp where
      r: "pr_neighbor_idx r = nb" "pr_baseline_impact r = b"
         "perturb_features x nb = Inr xp"
         "target_impact (predict xp edge_index edge_weight) target_node_idx = Inr (pr_perturbed_impact r)"
      by blast
    from r(4) obtain row' where
      "np_get (predict xp edge_index edge_weight) target_node_idx = Inr row'" "row' \<noteq> []"
      "pr_perturbed_impact r = sum_list row' / real (length row')"
      unfolding target_impact_mean by blast
    with row r show "\<exists>row x_perturbed row'.
         np_get (predict x edge_index edge_weight) target_node_idx = Inr row \<and> row \<noteq> [] \<and>
         pr_baseline_impact r = sum_list row / real (length row) \<and>
         perturb_features x (pr_neighbor_idx r) = Inr x_perturbed \<and>
         np_get (predict x_perturbed edge_index edge_weight) target_node_idx = Inr row' \<and>
         row' \<noteq> [] \<and>
         pr_perturbed_impact r = sum_list row' / real (length row')"
      by auto
  qed
next
  assume "edge_occlusion_analysis predict x edge_index edge_weight target_node_idx = Inr edge_results"
  from edge_occlusion_results [OF this] obtain b rs where
    b: "target_impact (predict x edge_index edge_weight) target_node_idx = Inr b"
    and res: "edge_results = sort_key oc_causal_effect rs"
    and each: "\<forall>r\<in>set rs. \<exists>k. occlude_edge predict x edge_index edge_weight target_node_idx b k = Inr r"
    by blast
  from b obtain row where row: "np_get (predict x edge_index edge_weight) target_node_idx = Inr row"
    "row \<noteq> []" "b = sum_list row / real (length row)"
    unfolding target_impact_mean by blast
  show "\<forall>r\<in>set edge_results. \<exists>row row'.
         np_get (predict x edge_index edge_weight) target_node_idx = Inr row \<and> row \<noteq> [] \<and>
         oc_baseline_impact r = sum_list row / real (length row) \<and>
         np_get (predict x (mask_out edge_index (oc_edge_idx r))
                   (mask_out edge_weight (oc_edge_idx r))) target_node_idx = Inr row' \<and>
         row' \<noteq> [] \<and>
         oc_occluded_impact r = sum_list row' / real (length row')"
  proof
    fix r assume "r \<in> set edge_results"
    with res each obtain k where
      "occlude_edge predict x edge_index edge_weight target_node_idx b k = Inr r"
      by auto
    from occlude_edge_result [OF this] have
      r: "oc_edge_idx r = k" "oc_baseline_impact r = b"
         "target_impact (predict x (mask_out edge_index k) (mask_out edge_weight k)) target_node_idx
            = Inr (oc_occluded_impact r)"
      by blast+
    from r(3) obtain row' where
      "np_get (predict x (mask_out edge_index k) (mask_out edge_weight k)) target_node_idx = Inr row'"
      "row' \<noteq> []" "oc_occluded_impact r = sum_list row' / real (length row')"
      unfolding target_impact_mean by blast
    with row r show "\<exists>row row'.
         np_get (predict x edge_index edge_weight) target_node_idx = Inr row \<and> row \<noteq> [] \<and>
         oc_baseline_impact r = sum_list row / real (length row) \<and>
         np_get (predict x (mask_out edge_index (oc_edge_idx r))
                   (mask_out edge_weight (oc_edge_idx r))) target_node_idx = Inr row' \<and>
         row' \<noteq> [] \<and>
         oc_occluded_impact r = sum_list row' / real (length row')"
      by auto
  qed
next
  assume "counterfactual_analysis predict x edge_index edge_weight target_node_idx failed_node_idx
            = Inr repair"
  from counterfactual_results [OF this] obtain xr where
    c: "target_impact (predict x edge_index edge_weight) target_node_idx = Inr (cf_current_impact repair)"
       "repair_features x failed_node_idx = Inr xr"
       "target_impact (predict xr edge_index edge_weight) target_node_idx = Inr (cf_repaired_impact repair)"
    by blast
  from c(1) obtain row where row: "np_get (predict x edge_index edge_weight) target_node_idx = Inr row"
    "row \<noteq> []" "cf_current_impact repair = sum_list row / real (length row)"
    unfolding target_impact_mean by blast
  from c(3) obtain row' where row': "np_get (predict xr edge_index edge_weight) target_node_idx = Inr row'"
    "row' \<noteq> []" "cf_repaired_impact repair = sum_list row' / real (length row')"
    unfolding target_impact_mean by blast
  from row row' c(2) show "\<exists>row x_repaired row'.
         np_get (predict x edge_index edge_weight) target_node_idx = Inr row \<and> row \<noteq> [] \<and>
         cf_current_impact repair = sum_list row / real (length row) \<and>
         repair_features x failed_node_idx = Inr x_repaired \<and>
         np_get (predict x_repaired edge_index edge_weight) target_node_idx = Inr row' \<and>
         row' \<noteq> [] \<and>
         cf_repaired_impact repair = sum_list row' / real (length row')"
    by blast
qed

lemma example_counterfactual:
  "counterfactual_analysis mixing_predictor [healthy_node[15 := 0], healthy_node, healthy_node]
     [(0, 2), (1, 2)] [1/2, 1] 2 0 =
   Inr \<lparr>cf_current_impact = 23/40, cf_repaired_impact = 7/20, cf_benefit = 9/40\<rparr>"
  by (simp add: counterfactual_analysis_def repair_features_def np_set2_def np_index_def
      Let_def impact_example bind_err_Inr upd15 healthy_node_def)

theorem impact_dimensions_witness:
  "(\<exists>rep. run_simulation status_predictor [healthy_node, healthy_node] [(0, 1)] [1] [0] None
             SUPPLY_CUT False = (2, Inr rep) \<and>
      raw_baseline (rep_raw rep) = [0, 0] \<and> raw_simulated (rep_raw rep) = [1, 0]) \<and>
   (\<exists>row. np_get (mixing_predictor [healthy_node[15 := 0], healthy_node, healthy_node]
                    [(0, 2), (1, 2)] [1/2, 1]) 2 = Inr row \<and> row \<noteq> [] \<and>
           23/40 = sum_list row / real (length row))"
proof -
  note inst1 = impact_dimensions [where predict = status_predictor
      and x = "[healthy_node, healthy_node]" and edge_index = "[(0, 1)]" and edge_weight = "[1]"
      and failed_nodes = "[0]" and node_names = None and failure_mode = SUPPLY_CUT
      and pessimistic_mode = False, THEN conjunct1]
  from inst1 two_node_request have "\<exists>rep. run_simulation status_predictor [healthy_node, healthy_node] [(0, 1)] [1] [0] None
             SUPPLY_CUT False = (2, Inr rep) \<and>
      raw_baseline (rep_raw rep) = [0, 0] \<and> raw_simulated (rep_raw rep) = [1, 0]"
    unfolding two_node_baseline two_node_simulated by blast
  moreover
  note inst2 = impact_dimensions [where predict = mixing_predictor
      and x = "[healthy_node[15 := 0], healthy_node, healthy_node]"
      and edge_index = "[(0, 2), (1, 2)]" and edge_weight = "[1/2, 1]"
      and target_node_idx = 2 and failed_node_idx = 0
      and repair = "\<lparr>cf_current_impact = 23/40, cf_repaired_impact = 7/20, cf_benefit = 9/40\<rparr>",
      THEN conjunct2, THEN conjunct2, THEN conjunct2]
  from inst2 example_counterfactual have "\<exists>row. np_get (mixing_predictor [healthy_node[15 := 0], healthy_node, healthy_node]
                    [(0, 2), (1, 2)] [1/2, 1]) 2 = Inr row \<and> row \<noteq> [] \<and>
           23/40 = sum_list row / real (length row)"
    by auto
  ultimately show ?thesis by blast
qed

theorem impact_dimension_0_counterexample:
  "node_perturbation_analysis mixing_predictor [healthy_node, healthy_node, healthy_node]
     [(0, 2), (1, 2)] [1/2, 1] 2 =
   Inr [\<lparr>pr_neighbor_idx = 0, pr_node_type = ''Tank'', pr_baseline_impact = 7/20,
          pr_perturbed_impact = 23/40, pr_causal_effect = 9/40\<rparr>,
        \<lparr>pr_neighbor_idx = 1, pr_node_type = ''Tank'', pr_baseline_impact = 7/20,
          pr_perturbed_impact = 37/80, pr_causal_effect = 9/80\<rparr>] \<and>
   mixing_predictor [healthy_node, healthy_node, healthy_node] [(0, 2), (1, 2)] [1/2, 1] ! 2
     = [13/40, 3/8]"
  using example_perturbation example_baseline_row by simp

end
